theory Spec2Isabelle
  imports Complex_Main "HOL-Library.Sublist"
begin

section \<open>The wire types of main.go\<close>

text \<open>
  Every Go struct of \<^verbatim>\<open>main.go\<close> is a record. Field names are the Go names; where two
  structs share a field name the later one carries a prefix (\<open>OllamaModel\<close>,
  \<open>OllamaStream\<close>, \<open>OptTemperature\<close>, \<open>BackModel\<close>, \<open>RespModel\<close>, \<open>ErrMessage\<close>, ...).
  Go strings are byte strings, so \<open>string\<close> (a list of 8-bit characters) with \<open>length\<close>
  for \<^verbatim>\<open>len\<close>. A \<^verbatim>\<open>float64\<close> that came out of a JSON number is finite and is only
  compared with zero and copied, so it is a \<open>real\<close>; Go's \<^verbatim>\<open>int\<close> is only compared,
  copied and divided by four on values far from its bounds, so it is an \<open>int\<close>.
  A field missing from the JSON text leaves the Go zero value (\<open>0\<close>, \<open>False\<close>, \<open>''''\<close>,
  \<open>[]\<close>).
\<close>

record ChatMessage =
  Role :: string
  Content :: string

record OpenAIChatRequest =
  Model :: string
  Messages :: "ChatMessage list"
  Temperature :: real
  MaxTokens :: int
  Stream :: bool

record Choice =
  Index :: int
  Message :: ChatMessage
  FinishReason :: string

record Usage =
  PromptTokens :: int
  CompletionTokens :: int
  TotalTokens :: int

record OpenAIChatResponse =
  ID :: string
  Object :: string
  Created :: int
  RespModel :: string
  Choices :: "Choice list"
  Usage :: Usage

text \<open>The anonymous \<^verbatim>\<open>Options\<close> struct of \<^verbatim>\<open>OllamaRequest\<close>.\<close>

record Options =
  OptTemperature :: real
  NumPredict :: int

record OllamaRequest =
  OllamaModel :: string
  Prompt :: string
  OllamaStream :: bool
  Options :: Options

record OllamaResponse =
  BackModel :: string
  Response :: string
  Done :: bool

record ErrorDetail =
  ErrMessage :: string
  ErrType :: string
  ErrCode :: string

record ErrorResponse =
  Error :: ErrorDetail

text \<open>
  Both option fields are tagged \<^verbatim>\<open>omitempty\<close>: the marshalled request carries the key
  exactly when the field is not the zero value. That is what "set" means for an option.
\<close>

definition temperatureSet :: "Options \<Rightarrow> bool" where
  "temperatureSet opts = (OptTemperature opts \<noteq> 0)"

definition numPredictSet :: "Options \<Rightarrow> bool" where
  "numPredictSet opts = (NumPredict opts \<noteq> 0)"

section \<open>The world outside the handler\<close>

text \<open>
  What \<^verbatim>\<open>http.Post\<close> hands back when the connection worked: the status code, the bytes
  \<^verbatim>\<open>io.ReadAll\<close> obtains from the body, and the error \<^verbatim>\<open>io.ReadAll\<close> reports, if any.
\<close>

record http_response =
  StatusCode :: int
  Body :: string
  ReadErr :: "string option"

text \<open>
  The standard library and the network are parameters of the model. An error value is
  the text of its \<^verbatim>\<open>Error()\<close>.
  \<^item> \<open>jsonDecode\<close>: \<^verbatim>\<open>json.NewDecoder(r.Body).Decode(&openAIReq)\<close>, \<open>None\<close> when it
    returns an error. How it reads the body is modelled further down, as \<open>Decode\<close>.
  \<^item> \<open>jsonMarshal\<close>: \<^verbatim>\<open>json.Marshal(req)\<close>.
  \<^item> \<open>httpPost\<close>: \<^verbatim>\<open>http.Post(url, contentType, body)\<close>, \<open>Inl\<close> for a transport failure.
  \<^item> \<open>jsonUnmarshal\<close>: \<^verbatim>\<open>json.Unmarshal(body, &ollamaResp)\<close>.
  \<^item> \<open>randSource\<close>: the raw draw behind the \<open>i\<close>-th call of \<^verbatim>\<open>rand.Intn\<close>.
  \<^item> \<open>timeNowUnix\<close>: \<^verbatim>\<open>time.Now().Unix()\<close>.
\<close>

record world =
  jsonDecode :: "string \<Rightarrow> OpenAIChatRequest option"
  jsonMarshal :: "OllamaRequest \<Rightarrow> string + string"
  httpPost :: "string \<Rightarrow> string \<Rightarrow> string \<Rightarrow> string + http_response"
  jsonUnmarshal :: "string \<Rightarrow> string + OllamaResponse"
  randSource :: "nat \<Rightarrow> nat"
  timeNowUnix :: int

record request =
  Method :: string
  ReqBody :: string

text \<open>
  The \<^verbatim>\<open>http.ResponseWriter\<close>: the header map, the status line once it is written, and
  the Go values handed to the JSON encoder so far, each of which becomes one JSON text in
  the body. An empty \<open>wroteBody\<close> is a response with no body. What a client reads back
  from those texts is \<open>responseBody\<close>, defined with the encoder's treatment of strings.
\<close>

datatype payload = ErrorPayload ErrorResponse | ChatPayload OpenAIChatResponse

record ResponseWriter =
  Header :: "(string \<times> string) list"
  wroteStatus :: "int option"
  wroteBody :: "payload list"

definition newResponseWriter :: ResponseWriter where
  "newResponseWriter = \<lparr>Header = [], wroteStatus = None, wroteBody = []\<rparr>"

fun headerSet :: "string \<Rightarrow> string \<Rightarrow> (string \<times> string) list \<Rightarrow> (string \<times> string) list" where
  "headerSet k v [] = [(k, v)]"
| "headerSet k v ((k', v') # hs) =
     (if k' = k then (k, v) # hs else (k', v') # headerSet k v hs)"

definition HeaderSet :: "string \<Rightarrow> string \<Rightarrow> ResponseWriter \<Rightarrow> ResponseWriter" where
  "HeaderSet k v w = w\<lparr>Header := headerSet k v (Header w)\<rparr>"

text \<open>\<^verbatim>\<open>WriteHeader\<close> fixes the status once; a second call changes nothing.\<close>

definition WriteHeader :: "int \<Rightarrow> ResponseWriter \<Rightarrow> ResponseWriter" where
  "WriteHeader status w =
     (case wroteStatus w of None \<Rightarrow> w\<lparr>wroteStatus := Some status\<rparr> | Some _ \<Rightarrow> w)"

text \<open>
  \<^verbatim>\<open>json.NewEncoder(w).Encode(v)\<close> writes to the body; the first write sends status 200
  when no status line went out before. The writer records \<open>v\<close> itself, the encoder's
  input; the encoder's output for it is \<open>wireValue v\<close>.
\<close>

definition Encode :: "payload \<Rightarrow> ResponseWriter \<Rightarrow> ResponseWriter" where
  "Encode v w =
     w\<lparr>wroteStatus := (case wroteStatus w of None \<Rightarrow> Some 200 | Some s \<Rightarrow> Some s),
       wroteBody := wroteBody w @ [v]\<rparr>"

text \<open>The status the client sees: 200 when the handler returned without writing one.\<close>

definition finalStatus :: "ResponseWriter \<Rightarrow> int" where
  "finalStatus w = (case wroteStatus w of None \<Rightarrow> 200 | Some s \<Rightarrow> s)"

section \<open>Constants\<close>

definition OLLAMA_API_BASE :: string where
  "OLLAMA_API_BASE = ''http://localhost:11434''"

definition CONTENT_TYPE_JSON :: string where
  "CONTENT_TYPE_JSON = ''application/json''"

definition MethodPost :: string where
  "MethodPost = ''POST''"

definition MethodOptions :: string where
  "MethodOptions = ''OPTIONS''"

definition StatusOK :: int where
  "StatusOK = 200"

definition StatusBadRequest :: int where
  "StatusBadRequest = 400"

definition StatusMethodNotAllowed :: int where
  "StatusMethodNotAllowed = 405"

definition StatusInternalServerError :: int where
  "StatusInternalServerError = 500"

section \<open>The functions of main.go\<close>

subsection \<open>convertMessagesToPrompt\<close>

text \<open>
  The \<^verbatim>\<open>for ... range\<close> loop with its accumulator \<^verbatim>\<open>prompt\<close>, which starts as the
  empty string.
\<close>

fun convertLoop :: "string \<Rightarrow> ChatMessage list \<Rightarrow> string" where
  "convertLoop prompt [] = prompt"
| "convertLoop prompt (msg # messages) =
     convertLoop (prompt @ Role msg @ '': '' @ Content msg @ ''\<newline>'') messages"

definition convertMessagesToPrompt :: "ChatMessage list \<Rightarrow> string" where
  "convertMessagesToPrompt messages = convertLoop [] messages"

subsection \<open>generateRandomString and getCurrentUnixTimestamp\<close>

definition letters :: string where
  "letters = ''greatJobOnThatUselessRegex000''"

text \<open>\<^verbatim>\<open>rand.Intn(n)\<close> lies in \<open>[0, n)\<close>: the \<open>i\<close>-th raw draw reduced modulo \<open>n\<close>.\<close>

definition Intn :: "world \<Rightarrow> nat \<Rightarrow> nat \<Rightarrow> nat" where
  "Intn wd i n = randSource wd i mod n"

definition generateRandomString :: "world \<Rightarrow> nat \<Rightarrow> string" where
  "generateRandomString wd n = map (\<lambda>i. letters ! Intn wd i (length letters)) [0..<n]"

definition getCurrentUnixTimestamp :: "world \<Rightarrow> int" where
  "getCurrentUnixTimestamp wd = timeNowUnix wd"

subsection \<open>sendError\<close>

definition sendError ::
  "ResponseWriter \<Rightarrow> string \<Rightarrow> string \<Rightarrow> string \<Rightarrow> int \<Rightarrow> ResponseWriter" where
  "sendError w message errorType code status =
     Encode (ErrorPayload \<lparr>Error = \<lparr>ErrMessage = message, ErrType = errorType, ErrCode = code\<rparr>\<rparr>)
       (WriteHeader status (HeaderSet ''Content-Type'' CONTENT_TYPE_JSON w))"

subsection \<open>sendToOllama\<close>

text \<open>The verb \<^verbatim>\<open>%d\<close> of \<^verbatim>\<open>fmt.Errorf\<close>: decimal digits, a minus sign for a negative number.\<close>

fun natDigits :: "nat \<Rightarrow> string" where
  "natDigits n =
     (if n < 10 then [''0123456789'' ! n]
      else natDigits (n div 10) @ [''0123456789'' ! (n mod 10)])"

declare natDigits.simps [simp del]

definition fmtD :: "int \<Rightarrow> string" where
  "fmtD i = (if i < 0 then ''-'' @ natDigits (nat (- i)) else natDigits (nat i))"

text \<open>
  The result is the Go pair \<^verbatim>\<open>(*OllamaResponse, error)\<close> as a sum, together with the
  requests that reached \<^verbatim>\<open>http.Post\<close>: none when marshalling failed, the one request
  otherwise.
\<close>

definition sendToOllama ::
  "world \<Rightarrow> OllamaRequest \<Rightarrow> (string + OllamaResponse) \<times> OllamaRequest list" where
  "sendToOllama wd req =
     (case jsonMarshal wd req of
        Inl err \<Rightarrow> (Inl (''failed to marshal request: '' @ err), [])
      | Inr jsonData \<Rightarrow>
          (case httpPost wd (OLLAMA_API_BASE @ ''/api/generate'') CONTENT_TYPE_JSON jsonData of
             Inl err \<Rightarrow> (Inl (''failed to connect to Ollama: '' @ err), [req])
           | Inr resp \<Rightarrow>
               if StatusCode resp \<noteq> StatusOK
               then (Inl (''ollama API error (status '' @ fmtD (StatusCode resp) @ ''): ''
                          @ Body resp), [req])
               else (case ReadErr resp of
                       Some err \<Rightarrow> (Inl (''failed to read response: '' @ err), [req])
                     | None \<Rightarrow>
                         (case jsonUnmarshal wd (Body resp) of
                            Inl err \<Rightarrow> (Inl (''failed to parse response: '' @ err), [req])
                          | Inr ollamaResp \<Rightarrow> (Inr ollamaResp, [req])))))"

subsection \<open>handleChatCompletions\<close>

text \<open>
  Lines 125 to 138 of the handler: the back request built from a validated front
  request. The composite literal leaves \<^verbatim>\<open>Options\<close> at its zero value; the two guarded
  assignments follow.
\<close>

definition buildOllamaReq :: "OpenAIChatRequest \<Rightarrow> OllamaRequest" where
  "buildOllamaReq openAIReq =
     (let prompt = convertMessagesToPrompt (Messages openAIReq);
          ollamaReq = \<lparr>OllamaModel = Model openAIReq, Prompt = prompt,
                       OllamaStream = Stream openAIReq,
                       Options = \<lparr>OptTemperature = 0, NumPredict = 0\<rparr>\<rparr>;
          ollamaReq = (if Temperature openAIReq > 0
                       then ollamaReq\<lparr>Options := (Options ollamaReq)
                              \<lparr>OptTemperature := Temperature openAIReq\<rparr>\<rparr>
                       else ollamaReq);
          ollamaReq = (if MaxTokens openAIReq > 0
                       then ollamaReq\<lparr>Options := (Options ollamaReq)
                              \<lparr>NumPredict := MaxTokens openAIReq\<rparr>\<rparr>
                       else ollamaReq)
      in ollamaReq)"

text \<open>
  Lines 146 to 166: the front response built from the backend's reply. The local
  \<^verbatim>\<open>prompt\<close> whose length the usage block takes is the value stored in
  \<^verbatim>\<open>ollamaReq.Prompt\<close>.
\<close>

definition buildOpenAIResp ::
  "world \<Rightarrow> OllamaRequest \<Rightarrow> OllamaResponse \<Rightarrow> OpenAIChatResponse" where
  "buildOpenAIResp wd ollamaReq ollamaResp =
     \<lparr>ID = ''chatcmpl-'' @ generateRandomString wd 10,
      Object = ''chat.completion'',
      Created = getCurrentUnixTimestamp wd,
      RespModel = OllamaModel ollamaReq,
      Choices = [\<lparr>Index = 0,
                  Message = \<lparr>Role = ''assistant'', Content = Response ollamaResp\<rparr>,
                  FinishReason = ''stop''\<rparr>],
      Usage = \<lparr>PromptTokens = int (length (Prompt ollamaReq)) div 4,
               CompletionTokens = int (length (Response ollamaResp)) div 4,
               TotalTokens =
                 (int (length (Prompt ollamaReq)) + int (length (Response ollamaResp))) div 4\<rparr>\<rparr>"

text \<open>
  The handler returns the writer as it leaves it and the requests that went to the
  backend.
\<close>

definition handleChatCompletions ::
  "world \<Rightarrow> ResponseWriter \<Rightarrow> request \<Rightarrow> ResponseWriter \<times> OllamaRequest list" where
  "handleChatCompletions wd w0 r =
     (let w = HeaderSet ''Content-Type'' CONTENT_TYPE_JSON w0 in
      if Method r \<noteq> MethodPost
      then (sendError w ''Method not allowed'' ''invalid_request_error''
              ''method_not_allowed'' StatusMethodNotAllowed, [])
      else
        (case jsonDecode wd (ReqBody r) of
           None \<Rightarrow> (sendError w ''Invalid request body'' ''invalid_request_error''
                      ''invalid_body'' StatusBadRequest, [])
         | Some openAIReq \<Rightarrow>
             if length (Messages openAIReq) = 0
             then (sendError w ''Messages array is empty'' ''invalid_request_error''
                     ''invalid_messages'' StatusBadRequest, [])
             else if Model openAIReq = []
             then (sendError w ''Model is required'' ''invalid_request_error''
                     ''invalid_model'' StatusBadRequest, [])
             else
               (let ollamaReq = buildOllamaReq openAIReq in
                case sendToOllama wd ollamaReq of
                  (Inl err, posted) \<Rightarrow>
                    (sendError w (''Error calling Ollama API: '' @ err) ''server_error''
                       ''internal_error'' StatusInternalServerError, posted)
                | (Inr ollamaResp, posted) \<Rightarrow>
                    (Encode (ChatPayload (buildOpenAIResp wd ollamaReq ollamaResp)) w,
                     posted))))"

subsection \<open>corsMiddleware and the registered handler\<close>

definition corsMiddleware ::
  "(ResponseWriter \<Rightarrow> request \<Rightarrow> ResponseWriter \<times> OllamaRequest list) \<Rightarrow>
   ResponseWriter \<Rightarrow> request \<Rightarrow> ResponseWriter \<times> OllamaRequest list" where
  "corsMiddleware next w0 r =
     (let w = HeaderSet ''Access-Control-Max-Age'' ''3600''
               (HeaderSet ''Access-Control-Allow-Headers'' ''Content-Type, Authorization''
                 (HeaderSet ''Access-Control-Allow-Methods'' ''POST, OPTIONS''
                   (HeaderSet ''Access-Control-Allow-Origin'' ''*'' w0)))
      in if Method r = MethodOptions then (WriteHeader StatusOK w, [])
         else next w r)"

text \<open>
  The handler that \<^verbatim>\<open>main\<close> registers for \<^verbatim>\<open>/v1/chat/completions\<close>, run on a fresh writer.
\<close>

definition endpoint :: "world \<Rightarrow> request \<Rightarrow> ResponseWriter \<times> OllamaRequest list" where
  "endpoint wd r = corsMiddleware (handleChatCompletions wd) newResponseWriter r"

text \<open>A front request is valid when the handler's three checks let it through.\<close>

definition validFront :: "world \<Rightarrow> request \<Rightarrow> OpenAIChatRequest \<Rightarrow> bool" where
  "validFront wd r openAIReq =
     (Method r = MethodPost \<and> jsonDecode wd (ReqBody r) = Some openAIReq \<and>
      Messages openAIReq \<noteq> [] \<and> Model openAIReq \<noteq> [])"

section \<open>The JSON decoder's scanner\<close>

text \<open>
  \<^verbatim>\<open>json.NewDecoder(r.Body).Decode(&openAIReq)\<close> works in two stages. The first,
  \<^verbatim>\<open>readValue\<close>, runs the scanner of \<^verbatim>\<open>encoding/json\<close> over the body one byte at a
  time until one complete JSON value has gone by, and stops there: what follows the value
  is not looked at. The second unmarshals the bytes of that value into the struct. The
  scanner is a state machine: a step function chosen by the state, and a stack of the
  objects and arrays that are open. It is modelled state by state; the stack has its top
  first.
\<close>

datatype stepState =
    StateBeginValueOrEmpty | StateBeginValue | StateBeginStringOrEmpty | StateBeginString
  | StateEndValue | StateEndTop
  | StateInString | StateInStringEsc | StateInStringEscU | StateInStringEscU1
  | StateInStringEscU12 | StateInStringEscU123
  | StateNeg | State1 | State0 | StateDot | StateDot0 | StateE | StateESign | StateE0
  | StateT | StateTr | StateTru | StateF | StateFa | StateFal | StateFals
  | StateN | StateNu | StateNul | StateError

datatype parseMode = ParseObjectKey | ParseObjectValue | ParseArrayValue

datatype scanCode =
    ScanContinue | ScanBeginLiteral | ScanBeginObject | ScanObjectKey | ScanObjectValue
  | ScanEndObject | ScanBeginArray | ScanArrayValue | ScanEndArray | ScanSkipSpace
  | ScanEnd | ScanError

record scanner =
  step :: stepState
  endTop :: bool
  parseState :: "parseMode list"

definition maxNestingDepth :: nat where
  "maxNestingDepth = 10000"

definition scanReset :: scanner where
  "scanReset = \<lparr>step = StateBeginValue, endTop = False, parseState = []\<rparr>"

definition isSpace :: "char \<Rightarrow> bool" where
  "isSpace c = (c = CHR '' '' \<or> c = CHR 0x09 \<or> c = CHR 0x0D \<or> c = CHR 0x0A)"

definition isDigit :: "char \<Rightarrow> bool" where
  "isDigit c = (c \<in> set ''0123456789'')"

definition isHex :: "char \<Rightarrow> bool" where
  "isHex c = (c \<in> set ''0123456789abcdefABCDEF'')"

text \<open>
  The scanner's \<^verbatim>\<open>error\<close> method: the state becomes \<^verbatim>\<open>stateError\<close> (which is also
  how a recorded error is recognised later) and the step reports \<^verbatim>\<open>scanError\<close>.
\<close>

definition scanErr :: "scanner \<Rightarrow> scanner \<times> scanCode" where
  "scanErr s = (s\<lparr>step := StateError\<rparr>, ScanError)"

definition goto :: "stepState \<Rightarrow> scanCode \<Rightarrow> scanner \<Rightarrow> scanner \<times> scanCode" where
  "goto st code s = (s\<lparr>step := st\<rparr>, code)"

definition pushParseState :: "scanner \<Rightarrow> parseMode \<Rightarrow> scanCode \<Rightarrow> scanner \<times> scanCode" where
  "pushParseState s newParseState successState =
     (let s' = s\<lparr>parseState := newParseState # parseState s\<rparr>
      in if length (parseState s') \<le> maxNestingDepth then (s', successState) else scanErr s')"

text \<open>\<^verbatim>\<open>popParseState\<close>, given the stack below its top.\<close>

definition popParseState :: "scanner \<Rightarrow> parseMode list \<Rightarrow> scanner" where
  "popParseState s rest =
     (if rest = [] then s\<lparr>parseState := rest, step := StateEndTop, endTop := True\<rparr>
      else s\<lparr>parseState := rest, step := StateEndValue\<rparr>)"

text \<open>
  After the top-level value only space should follow. Another byte records the error for
  the next step, but this step still reports \<^verbatim>\<open>scanEnd\<close>.
\<close>

definition stateEndTop :: "scanner \<Rightarrow> char \<Rightarrow> scanner \<times> scanCode" where
  "stateEndTop s c = (if \<not> isSpace c then (s\<lparr>step := StateError\<rparr>, ScanEnd) else (s, ScanEnd))"

definition stateEndValue :: "scanner \<Rightarrow> char \<Rightarrow> scanner \<times> scanCode" where
  "stateEndValue s c =
     (case parseState s of
        [] \<Rightarrow> stateEndTop (s\<lparr>step := StateEndTop, endTop := True\<rparr>) c
      | ps # rest \<Rightarrow>
          if isSpace c then (s\<lparr>step := StateEndValue\<rparr>, ScanSkipSpace)
          else (case ps of
                  ParseObjectKey \<Rightarrow>
                    if c = CHR '':'' then
                      (s\<lparr>parseState := ParseObjectValue # rest, step := StateBeginValue\<rparr>,
                       ScanObjectKey)
                    else scanErr s
                | ParseObjectValue \<Rightarrow>
                    if c = CHR '','' then
                      (s\<lparr>parseState := ParseObjectKey # rest, step := StateBeginString\<rparr>,
                       ScanObjectValue)
                    else if c = CHR ''}'' then (popParseState s rest, ScanEndObject)
                    else scanErr s
                | ParseArrayValue \<Rightarrow>
                    if c = CHR '','' then (s\<lparr>step := StateBeginValue\<rparr>, ScanArrayValue)
                    else if c = CHR '']'' then (popParseState s rest, ScanEndArray)
                    else scanErr s))"

definition stateBeginValue :: "scanner \<Rightarrow> char \<Rightarrow> scanner \<times> scanCode" where
  "stateBeginValue s c =
     (if isSpace c then (s, ScanSkipSpace)
      else if c = CHR ''{'' then
        pushParseState (s\<lparr>step := StateBeginStringOrEmpty\<rparr>) ParseObjectKey ScanBeginObject
      else if c = CHR ''['' then
        pushParseState (s\<lparr>step := StateBeginValueOrEmpty\<rparr>) ParseArrayValue ScanBeginArray
      else if c = CHR 0x22 then goto StateInString ScanBeginLiteral s
      else if c = CHR ''-'' then goto StateNeg ScanBeginLiteral s
      else if c = CHR ''0'' then goto State0 ScanBeginLiteral s
      else if c = CHR ''t'' then goto StateT ScanBeginLiteral s
      else if c = CHR ''f'' then goto StateF ScanBeginLiteral s
      else if c = CHR ''n'' then goto StateN ScanBeginLiteral s
      else if c \<in> set ''123456789'' then goto State1 ScanBeginLiteral s
      else scanErr s)"

definition stateBeginValueOrEmpty :: "scanner \<Rightarrow> char \<Rightarrow> scanner \<times> scanCode" where
  "stateBeginValueOrEmpty s c =
     (if isSpace c then (s, ScanSkipSpace)
      else if c = CHR '']'' then stateEndValue s c
      else stateBeginValue s c)"

definition stateBeginString :: "scanner \<Rightarrow> char \<Rightarrow> scanner \<times> scanCode" where
  "stateBeginString s c =
     (if isSpace c then (s, ScanSkipSpace)
      else if c = CHR 0x22 then goto StateInString ScanBeginLiteral s
      else scanErr s)"

text \<open>
  The state after an opening brace, where the stack is never empty; the empty case below
  is there only to make the function total.
\<close>

definition stateBeginStringOrEmpty :: "scanner \<Rightarrow> char \<Rightarrow> scanner \<times> scanCode" where
  "stateBeginStringOrEmpty s c =
     (if isSpace c then (s, ScanSkipSpace)
      else if c = CHR ''}'' then
        (case parseState s of
           [] \<Rightarrow> scanErr s
         | _ # rest \<Rightarrow> stateEndValue (s\<lparr>parseState := ParseObjectValue # rest\<rparr>) c)
      else stateBeginString s c)"

definition stateInString :: "scanner \<Rightarrow> char \<Rightarrow> scanner \<times> scanCode" where
  "stateInString s c =
     (if c = CHR 0x22 then goto StateEndValue ScanContinue s
      else if c = CHR 0x5C then goto StateInStringEsc ScanContinue s
      else if (of_char c :: nat) < 0x20 then scanErr s
      else (s, ScanContinue))"

definition stateInStringEsc :: "scanner \<Rightarrow> char \<Rightarrow> scanner \<times> scanCode" where
  "stateInStringEsc s c =
     (if c \<in> set [CHR ''b'', CHR ''f'', CHR ''n'', CHR ''r'', CHR ''t'', CHR 0x5C, CHR ''/'',
                  CHR 0x22]
      then goto StateInString ScanContinue s
      else if c = CHR ''u'' then goto StateInStringEscU ScanContinue s
      else scanErr s)"

text \<open>The four states of a \<^verbatim>\<open>\u\<close> escape: a hexadecimal digit, then the next state.\<close>

definition hexThen :: "stepState \<Rightarrow> scanner \<Rightarrow> char \<Rightarrow> scanner \<times> scanCode" where
  "hexThen st s c = (if isHex c then goto st ScanContinue s else scanErr s)"

text \<open>The states inside \<^verbatim>\<open>true\<close>, \<^verbatim>\<open>false\<close> and \<^verbatim>\<open>null\<close>: one letter, then the next state.\<close>

definition charThen :: "char \<Rightarrow> stepState \<Rightarrow> scanner \<Rightarrow> char \<Rightarrow> scanner \<times> scanCode" where
  "charThen want st s c = (if c = want then goto st ScanContinue s else scanErr s)"

definition state0 :: "scanner \<Rightarrow> char \<Rightarrow> scanner \<times> scanCode" where
  "state0 s c =
     (if c = CHR ''.'' then goto StateDot ScanContinue s
      else if c = CHR ''e'' \<or> c = CHR ''E'' then goto StateE ScanContinue s
      else stateEndValue s c)"

definition state1 :: "scanner \<Rightarrow> char \<Rightarrow> scanner \<times> scanCode" where
  "state1 s c = (if isDigit c then goto State1 ScanContinue s else state0 s c)"

definition stateNeg :: "scanner \<Rightarrow> char \<Rightarrow> scanner \<times> scanCode" where
  "stateNeg s c =
     (if c = CHR ''0'' then goto State0 ScanContinue s
      else if c \<in> set ''123456789'' then goto State1 ScanContinue s
      else scanErr s)"

definition stateDot :: "scanner \<Rightarrow> char \<Rightarrow> scanner \<times> scanCode" where
  "stateDot s c = (if isDigit c then goto StateDot0 ScanContinue s else scanErr s)"

definition stateDot0 :: "scanner \<Rightarrow> char \<Rightarrow> scanner \<times> scanCode" where
  "stateDot0 s c =
     (if isDigit c then (s, ScanContinue)
      else if c = CHR ''e'' \<or> c = CHR ''E'' then goto StateE ScanContinue s
      else stateEndValue s c)"

definition stateESign :: "scanner \<Rightarrow> char \<Rightarrow> scanner \<times> scanCode" where
  "stateESign s c = (if isDigit c then goto StateE0 ScanContinue s else scanErr s)"

definition stateE :: "scanner \<Rightarrow> char \<Rightarrow> scanner \<times> scanCode" where
  "stateE s c =
     (if c = CHR ''+'' \<or> c = CHR ''-'' then goto StateESign ScanContinue s else stateESign s c)"

definition stateE0 :: "scanner \<Rightarrow> char \<Rightarrow> scanner \<times> scanCode" where
  "stateE0 s c = (if isDigit c then (s, ScanContinue) else stateEndValue s c)"

text \<open>\<^verbatim>\<open>s.step(s, c)\<close>: the step function of the current state.\<close>

definition scanStep :: "scanner \<Rightarrow> char \<Rightarrow> scanner \<times> scanCode" where
  "scanStep s c =
     (case step s of
        StateBeginValueOrEmpty \<Rightarrow> stateBeginValueOrEmpty s c
      | StateBeginValue \<Rightarrow> stateBeginValue s c
      | StateBeginStringOrEmpty \<Rightarrow> stateBeginStringOrEmpty s c
      | StateBeginString \<Rightarrow> stateBeginString s c
      | StateEndValue \<Rightarrow> stateEndValue s c
      | StateEndTop \<Rightarrow> stateEndTop s c
      | StateInString \<Rightarrow> stateInString s c
      | StateInStringEsc \<Rightarrow> stateInStringEsc s c
      | StateInStringEscU \<Rightarrow> hexThen StateInStringEscU1 s c
      | StateInStringEscU1 \<Rightarrow> hexThen StateInStringEscU12 s c
      | StateInStringEscU12 \<Rightarrow> hexThen StateInStringEscU123 s c
      | StateInStringEscU123 \<Rightarrow> hexThen StateInString s c
      | StateNeg \<Rightarrow> stateNeg s c
      | State1 \<Rightarrow> state1 s c
      | State0 \<Rightarrow> state0 s c
      | StateDot \<Rightarrow> stateDot s c
      | StateDot0 \<Rightarrow> stateDot0 s c
      | StateE \<Rightarrow> stateE s c
      | StateESign \<Rightarrow> stateESign s c
      | StateE0 \<Rightarrow> stateE0 s c
      | StateT \<Rightarrow> charThen (CHR ''r'') StateTr s c
      | StateTr \<Rightarrow> charThen (CHR ''u'') StateTru s c
      | StateTru \<Rightarrow> charThen (CHR ''e'') StateEndValue s c
      | StateF \<Rightarrow> charThen (CHR ''a'') StateFa s c
      | StateFa \<Rightarrow> charThen (CHR ''l'') StateFal s c
      | StateFal \<Rightarrow> charThen (CHR ''s'') StateFals s c
      | StateFals \<Rightarrow> charThen (CHR ''e'') StateEndValue s c
      | StateN \<Rightarrow> charThen (CHR ''u'') StateNu s c
      | StateNu \<Rightarrow> charThen (CHR ''l'') StateNul s c
      | StateNul \<Rightarrow> charThen (CHR ''l'') StateEndValue s c
      | StateError \<Rightarrow> (s, ScanError))"

text \<open>The scanner's \<^verbatim>\<open>eof\<close> method.\<close>

definition scanEof :: "scanner \<Rightarrow> scanCode" where
  "scanEof s =
     (if step s = StateError then ScanError
      else if endTop s then ScanEnd
      else if endTop (fst (scanStep s (CHR '' ''))) then ScanEnd
      else ScanError)"

text \<open>
  \<^verbatim>\<open>json.Valid\<close>, which is \<^verbatim>\<open>checkValid\<close>: the whole text is one JSON value with nothing
  but space around it (and, as everywhere in the library, at most \<open>maxNestingDepth\<close>
  open objects and arrays). This is what "well-formed JSON" means below.
\<close>

fun checkValidLoop :: "scanner \<Rightarrow> string \<Rightarrow> bool" where
  "checkValidLoop s [] = (scanEof s \<noteq> ScanError)"
| "checkValidLoop s (c # data) =
     (case scanStep s c of
        (s', code) \<Rightarrow> if code = ScanError then False else checkValidLoop s' data)"

definition Valid :: "string \<Rightarrow> bool" where
  "Valid data = checkValidLoop scanReset data"

text \<open>
  The decoder's \<^verbatim>\<open>readValue\<close>: the number of bytes up to the end of the first JSON
  value, or \<open>None\<close> for its error. It returns at the first \<^verbatim>\<open>scanEnd\<close>; after the
  closing bracket of an object or array it feeds the scanner an invented space to see
  whether the top-level value is complete. When the body runs out, a last invented space
  must end the value.
\<close>

fun readValueLoop :: "scanner \<Rightarrow> nat \<Rightarrow> string \<Rightarrow> nat option" where
  "readValueLoop s scanp [] =
     (if snd (scanStep s (CHR '' '')) = ScanEnd then Some scanp else None)"
| "readValueLoop s scanp (c # buf) =
     (case scanStep s c of
        (s', code) \<Rightarrow>
          if code = ScanEnd then Some scanp
          else if code = ScanEndObject \<or> code = ScanEndArray then
            (case stateEndValue s' (CHR '' '') of
               (s'', code') \<Rightarrow>
                 if code' = ScanEnd then Some (scanp + 1) else readValueLoop s'' (scanp + 1) buf)
          else if code = ScanError then None
          else readValueLoop s' (scanp + 1) buf)"

definition readValue :: "string \<Rightarrow> nat option" where
  "readValue body = readValueLoop scanReset 0 body"

text \<open>
  What one step from a state without \<open>endTop\<close> can do, for the proofs about the two
  loops: \<open>endTop\<close> is only set together with \<^verbatim>\<open>scanEnd\<close> or a closing bracket, and a
  closing bracket is never a space and leaves either an empty stack with \<open>endTop\<close> set or
  the state \<^verbatim>\<open>stateEndValue\<close>.
\<close>

definition closing :: "scanCode \<Rightarrow> bool" where
  "closing code = (code = ScanEndObject \<or> code = ScanEndArray)"

definition stepSound :: "char \<Rightarrow> scanner \<times> scanCode \<Rightarrow> bool" where
  "stepSound c r =
     ((endTop (fst r) \<longrightarrow> snd r = ScanEnd \<or> closing (snd r)) \<and>
      (closing (snd r) \<longrightarrow>
         \<not> isSpace c \<and>
         (if parseState (fst r) = [] then endTop (fst r)
          else step (fst r) = StateEndValue \<and> \<not> endTop (fst r))))"


text \<open>
  \<^verbatim>\<open>Decode\<close> on a fresh decoder: read one value, then unmarshal its bytes. The
  unmarshalling of a value's bytes into the request struct (field matching, type checks,
  number conversion) is the parameter \<open>unmarshal\<close>, \<open>None\<close> when it reports an error.
\<close>

definition Decode ::
  "(string \<Rightarrow> OpenAIChatRequest option) \<Rightarrow> string \<Rightarrow> OpenAIChatRequest option" where
  "Decode unmarshal body =
     (case readValue body of None \<Rightarrow> None | Some n \<Rightarrow> unmarshal (take n body))"

section \<open>The JSON encoder's strings\<close>

text \<open>
  \<^verbatim>\<open>json.NewEncoder(w).Encode(v)\<close> writes every string of \<open>v\<close> as a JSON string. Each
  byte at which \<^verbatim>\<open>utf8.DecodeRuneInString\<close> finds no valid encoding is written as the
  escape of U+FFFD; every other byte sequence comes back unchanged when the text is
  parsed. So the string a client reads is the Go string with each such byte replaced by
  the three bytes of U+FFFD.
\<close>

definition byte :: "char \<Rightarrow> nat" where
  "byte c = of_char c"

definition inRange :: "nat \<Rightarrow> nat \<Rightarrow> char \<Rightarrow> bool" where
  "inRange lo hi c = (lo \<le> byte c \<and> byte c \<le> hi)"

text \<open>
  The length of the valid UTF-8 encoding at the head of a string, as \<^verbatim>\<open>utf8.DecodeRune\<close>
  accepts it; \<open>None\<close> where it returns \<^verbatim>\<open>RuneError\<close> with size one.
\<close>

fun validRuneLen :: "string \<Rightarrow> nat option" where
  "validRuneLen [] = None"
| "validRuneLen (b0 # rest) =
     (if byte b0 < 0x80 then Some 1
      else if inRange 0xC2 0xDF b0 then
        (case rest of b1 # _ \<Rightarrow> if inRange 0x80 0xBF b1 then Some 2 else None | _ \<Rightarrow> None)
      else if inRange 0xE0 0xEF b0 then
        (case rest of
           b1 # b2 # _ \<Rightarrow>
             if inRange (if byte b0 = 0xE0 then 0xA0 else 0x80)
                  (if byte b0 = 0xED then 0x9F else 0xBF) b1 \<and> inRange 0x80 0xBF b2
             then Some 3 else None
         | _ \<Rightarrow> None)
      else if inRange 0xF0 0xF4 b0 then
        (case rest of
           b1 # b2 # b3 # _ \<Rightarrow>
             if inRange (if byte b0 = 0xF0 then 0x90 else 0x80)
                  (if byte b0 = 0xF4 then 0x8F else 0xBF) b1 \<and> inRange 0x80 0xBF b2 \<and>
                inRange 0x80 0xBF b3
             then Some 4 else None
         | _ \<Rightarrow> None)
      else None)"

definition replacementChar :: string where
  "replacementChar = [CHR 0xEF, CHR 0xBF, CHR 0xBD]"

fun toValidUTF8 :: "string \<Rightarrow> string" where
  "toValidUTF8 [] = []"
| "toValidUTF8 (c # cs) =
     (case validRuneLen (c # cs) of
        None \<Rightarrow> replacementChar @ toValidUTF8 cs
      | Some n \<Rightarrow> c # take (n - 1) cs @ toValidUTF8 (drop (n - 1) cs))"

declare toValidUTF8.simps [simp del]

definition validUTF8 :: "string \<Rightarrow> bool" where
  "validUTF8 s = (toValidUTF8 s = s)"

definition isASCII :: "string \<Rightarrow> bool" where
  "isASCII s = list_all (\<lambda>c. byte c < 0x80) s"

text \<open>The value a client reads back from the text the encoder writes for a payload.\<close>

definition wireMessage :: "ChatMessage \<Rightarrow> ChatMessage" where
  "wireMessage m = \<lparr>Role = toValidUTF8 (Role m), Content = toValidUTF8 (Content m)\<rparr>"

definition wireChoice :: "Choice \<Rightarrow> Choice" where
  "wireChoice c = \<lparr>Index = Index c, Message = wireMessage (Message c),
                   FinishReason = toValidUTF8 (FinishReason c)\<rparr>"

fun wireValue :: "payload \<Rightarrow> payload" where
  "wireValue (ErrorPayload e) =
     ErrorPayload \<lparr>Error = \<lparr>ErrMessage = toValidUTF8 (ErrMessage (Error e)),
                            ErrType = toValidUTF8 (ErrType (Error e)),
                            ErrCode = toValidUTF8 (ErrCode (Error e))\<rparr>\<rparr>"
| "wireValue (ChatPayload c) =
     ChatPayload \<lparr>ID = toValidUTF8 (ID c), Object = toValidUTF8 (Object c),
                  Created = Created c, RespModel = toValidUTF8 (RespModel c),
                  Choices = map wireChoice (Choices c), Usage = Usage c\<rparr>"

text \<open>The body the caller receives: the values the handler encoded, as read back.\<close>

definition responseBody :: "ResponseWriter \<Rightarrow> payload list" where
  "responseBody w = map wireValue (wroteBody w)"

section \<open>Vocabulary of the specification\<close>

text \<open>The line the specification gives for one message: \<open><role>: <content>\<close>.\<close>

definition messageLine :: "ChatMessage \<Rightarrow> string" where
  "messageLine msg = Role msg @ '': '' @ Content msg"

text \<open>
  The specification's flattening: the in-order concatenation of every message's line,
  each followed by a newline.
\<close>

definition specPrompt :: "ChatMessage list \<Rightarrow> string" where
  "specPrompt messages = concat (map (\<lambda>msg. messageLine msg @ ''\<newline>'') messages)"

text \<open>
  The lines of a text: the runs of characters between newlines, a last run without a
  newline counting when it is not empty.
\<close>

fun splitLines :: "string \<Rightarrow> string \<Rightarrow> string list" where
  "splitLines cur [] = (if cur = [] then [] else [cur])"
| "splitLines cur (c # cs) =
     (if c = CHR ''\<newline>'' then cur # splitLines [] cs else splitLines (cur @ [c]) cs)"

definition linesOf :: "string \<Rightarrow> string list" where
  "linesOf s = splitLines [] s"

definition noNewline :: "ChatMessage \<Rightarrow> bool" where
  "noNewline msg = (CHR ''\<newline>'' \<notin> set (Role msg) \<and> CHR ''\<newline>'' \<notin> set (Content msg))"

section \<open>Concrete worlds and requests\<close>

text \<open>
  A world whose decoder, transport and parser give fixed answers, for running the
  handler on concrete inputs.
\<close>

definition fixedWorld ::
  "OpenAIChatRequest option \<Rightarrow> string + http_response \<Rightarrow> string + OllamaResponse \<Rightarrow> world" where
  "fixedWorld d p u =
     \<lparr>jsonDecode = (\<lambda>_. d), jsonMarshal = (\<lambda>_. Inr ''{}''), httpPost = (\<lambda>_ _ _. p),
      jsonUnmarshal = (\<lambda>_. u), randSource = (\<lambda>i. i), timeNowUnix = 1700000000\<rparr>"

definition post :: request where
  "post = \<lparr>Method = ''POST'', ReqBody = ''{}''\<rparr>"

definition userMsg :: "string \<Rightarrow> ChatMessage" where
  "userMsg c = \<lparr>Role = ''user'', Content = c\<rparr>"

definition llama2Req :: "ChatMessage list \<Rightarrow> OpenAIChatRequest" where
  "llama2Req ms = \<lparr>Model = ''llama2'', Messages = ms, Temperature = 0, MaxTokens = 0,
                   Stream = False\<rparr>"

definition reply200 :: "string + http_response" where
  "reply200 = Inr \<lparr>StatusCode = 200, Body = ''{}'', ReadErr = None\<rparr>"

definition backResp :: "string \<Rightarrow> bool \<Rightarrow> OllamaResponse" where
  "backResp s d = \<lparr>BackModel = ''llama2'', Response = s, Done = d\<rparr>"

text \<open>
  A world whose decoder is \<open>Decode\<close> over a table of unmarshalled example values, and a
  world whose backend replies with a given body, parsed by a table of example replies.
\<close>

definition exampleBody :: string where
  "exampleBody = ''{\"model\":\"llama2\",\"messages\":[{\"role\":\"user\",\"content\":\"Hi\"}]}''"

definition exampleUnmarshal :: "string \<Rightarrow> OpenAIChatRequest option" where
  "exampleUnmarshal v =
     (if v = exampleBody then Some (llama2Req [userMsg ''Hi''])
      else if v = ''{\"model\":\"llama2\",\"messages\":[]}'' then Some (llama2Req [])
      else if v = ''{\"model\":\"\",\"messages\":[{\"role\":\"user\",\"content\":\"Hi\"}]}''
        then Some ((llama2Req [userMsg ''Hi''])\<lparr>Model := []\<rparr>)
      else None)"

definition decodingWorld :: world where
  "decodingWorld =
     (fixedWorld None reply200 (Inr (backResp ''Hello'' True)))
       \<lparr>jsonDecode := Decode exampleUnmarshal\<rparr>"

definition exampleParse :: "string \<Rightarrow> string + OllamaResponse" where
  "exampleParse b =
     (if b = ''{\"model\":\"llama2\",\"response\":\"Hello\",\"done\":true}''
        then Inr (backResp ''Hello'' True)
      else if b = ''{\"model\":\"mistral\",\"response\":\"Hello\",\"done\":false}''
        then Inr \<lparr>BackModel = ''mistral'', Response = ''Hello'', Done = False\<rparr>
      else Inl ''invalid character'')"

definition replyWorld :: "string \<Rightarrow> world" where
  "replyWorld b =
     (fixedWorld (Some (llama2Req [userMsg ''Hi'']))
        (Inr \<lparr>StatusCode = 200, Body = b, ReadErr = None\<rparr>) (Inl []))
       \<lparr>jsonUnmarshal := exampleParse\<rparr>"

section \<open>Observations on a response\<close>

text \<open>The error body that \<^verbatim>\<open>sendError\<close> encodes.\<close>

definition errorPayload :: "string \<Rightarrow> string \<Rightarrow> string \<Rightarrow> payload" where
  "errorPayload message errorType code =
     ErrorPayload \<lparr>Error = \<lparr>ErrMessage = message, ErrType = errorType, ErrCode = code\<rparr>\<rparr>"

text \<open>The usage block of a payload, when it has one.\<close>

fun payloadUsage :: "payload \<Rightarrow> Usage option" where
  "payloadUsage (ErrorPayload e) = None"
| "payloadUsage (ChatPayload c) = Some (Usage c)"

text \<open>The specification's sum: total equals prompt plus completion.\<close>

definition usageAdds :: "Usage \<Rightarrow> bool" where
  "usageAdds u = (TotalTokens u = PromptTokens u + CompletionTokens u)"

text \<open>The four headers of \<^verbatim>\<open>corsMiddleware\<close>, in the order it sets them.\<close>

definition corsHeaders :: "(string \<times> string) list" where
  "corsHeaders = [(''Access-Control-Allow-Origin'', ''*''),
                  (''Access-Control-Allow-Methods'', ''POST, OPTIONS''),
                  (''Access-Control-Allow-Headers'', ''Content-Type, Authorization''),
                  (''Access-Control-Max-Age'', ''3600'')]"

text \<open>Two worlds that can differ only in what the backend sends back to a post.\<close>

definition sameExceptPost :: "world \<Rightarrow> world \<Rightarrow> bool" where
  "sameExceptPost w1 w2 =
     (jsonDecode w1 = jsonDecode w2 \<and> jsonMarshal w1 = jsonMarshal w2 \<and>
      jsonUnmarshal w1 = jsonUnmarshal w2 \<and> randSource w1 = randSource w2 \<and>
      timeNowUnix w1 = timeNowUnix w2)"

text \<open>The writer as \<^verbatim>\<open>corsMiddleware\<close> passes it on to the handler.\<close>

definition corsWriter :: ResponseWriter where
  "corsWriter = \<lparr>Header = corsHeaders, wroteStatus = None, wroteBody = []\<rparr>"

section \<open>Prompt flattening\<close>

lemma convertLoop_append:
  "convertLoop prompt messages = prompt @ specPrompt messages"
  by (induction messages arbitrary: prompt) (simp_all add: specPrompt_def messageLine_def)

lemma convertMessagesToPrompt_spec:
  "convertMessagesToPrompt messages = specPrompt messages"
  by (simp add: convertMessagesToPrompt_def convertLoop_append)

lemma splitLines_line:
  "CHR ''\<newline>'' \<notin> set l \<Longrightarrow>
   splitLines cur (l @ CHR ''\<newline>'' # rest) = (cur @ l) # splitLines [] rest"
  by (induction l arbitrary: cur) auto

lemma messageLine_noNewline:
  "noNewline msg \<Longrightarrow> CHR ''\<newline>'' \<notin> set (messageLine msg)"
  by (simp add: noNewline_def messageLine_def)

lemma linesOf_specPrompt:
  "\<forall>msg \<in> set messages. noNewline msg \<Longrightarrow>
   linesOf (specPrompt messages) = map messageLine messages"
proof (induction messages)
  case Nil
  then show ?case by (simp add: linesOf_def specPrompt_def)
next
  case (Cons msg messages)
  then have nl: "CHR ''\<newline>'' \<notin> set (messageLine msg)"
    by (simp add: messageLine_noNewline)
  have "specPrompt (msg # messages) = messageLine msg @ CHR ''\<newline>'' # specPrompt messages"
    by (simp add: specPrompt_def)
  then have "linesOf (specPrompt (msg # messages)) = messageLine msg # linesOf (specPrompt messages)"
    using splitLines_line [OF nl, of "[]"] by (simp add: linesOf_def)
  with Cons show ?case by simp
qed

text \<open>
  Claim C3, amended. For every message sequence the flattened prompt is the in-order
  concatenation of \<open><role>: <content>\<close> followed by a newline, one piece per message,
  with no escaping. When no role and no content contains a newline, the lines of the
  prompt are exactly the messages' lines, one per message, in input order.
\<close>

theorem prompt_flattening:
  "convertMessagesToPrompt messages = specPrompt messages \<and>
   ((\<forall>msg \<in> set messages. noNewline msg) \<longrightarrow>
      linesOf (convertMessagesToPrompt messages) = map messageLine messages)"
  by (simp add: convertMessagesToPrompt_spec linesOf_specPrompt)

theorem prompt_flattening_witness:
  "noNewline (userMsg ''Hi'') \<and> noNewline \<lparr>Role = ''assistant'', Content = ''Hello''\<rparr> \<and>
   convertMessagesToPrompt [userMsg ''Hi'', \<lparr>Role = ''assistant'', Content = ''Hello''\<rparr>]
     = ''user: Hi\<newline>assistant: Hello\<newline>'' \<and>
   linesOf (convertMessagesToPrompt [userMsg ''Hi'', \<lparr>Role = ''assistant'', Content = ''Hello''\<rparr>])
     = [''user: Hi'', ''assistant: Hello'']"
proof -
  let ?ms = "[userMsg ''Hi'', \<lparr>Role = ''assistant'', Content = ''Hello''\<rparr>]"
  have h: "\<forall>msg \<in> set ?ms. noNewline msg"
    by (simp add: noNewline_def userMsg_def)
  have "convertMessagesToPrompt ?ms = specPrompt ?ms \<and>
        linesOf (convertMessagesToPrompt ?ms) = map messageLine ?ms"
    using prompt_flattening [of ?ms] h by blast
  with h show ?thesis
    by (simp add: specPrompt_def messageLine_def userMsg_def linesOf_def noNewline_def)
qed

theorem one_line_per_message_counterexample:
  "convertMessagesToPrompt [userMsg ''a\<newline>b''] = ''user: a\<newline>b\<newline>'' \<and>
   linesOf (convertMessagesToPrompt [userMsg ''a\<newline>b'']) = [''user: a'', ''b''] \<and>
   length (linesOf (convertMessagesToPrompt [userMsg ''a\<newline>b''])) \<noteq> length [userMsg ''a\<newline>b'']"
  by (simp add: convertMessagesToPrompt_def linesOf_def userMsg_def)

section \<open>The handler on a writer\<close>

lemma wroteBody_sendError:
  "wroteBody (sendError w m t c s) = wroteBody w @ [errorPayload m t c]"
  by (simp add: sendError_def Encode_def WriteHeader_def HeaderSet_def errorPayload_def
      split: option.split)

lemma finalStatus_sendError:
  "wroteStatus w = None \<Longrightarrow> finalStatus (sendError w m t c s) = s"
  by (simp add: sendError_def Encode_def WriteHeader_def HeaderSet_def finalStatus_def)

lemma wroteBody_HeaderSet [simp]: "wroteBody (HeaderSet k v w) = wroteBody w"
  by (simp add: HeaderSet_def)

lemma wroteStatus_HeaderSet [simp]: "wroteStatus (HeaderSet k v w) = wroteStatus w"
  by (simp add: HeaderSet_def)

lemma wroteBody_Encode: "wroteBody (Encode v w) = wroteBody w @ [v]"
  by (simp add: Encode_def)

lemma finalStatus_Encode: "wroteStatus w = None \<Longrightarrow> finalStatus (Encode v w) = 200"
  by (simp add: Encode_def finalStatus_def)

lemma methods_differ: "MethodPost \<noteq> MethodOptions"
  by (simp add: MethodPost_def MethodOptions_def)

lemma endpoint_not_options:
  "Method r \<noteq> MethodOptions \<Longrightarrow> endpoint wd r = handleChatCompletions wd corsWriter r"
  by (simp add: endpoint_def corsMiddleware_def newResponseWriter_def HeaderSet_def
      corsWriter_def corsHeaders_def)

lemma endpoint_options:
  "Method r = MethodOptions \<Longrightarrow>
   endpoint wd r = (\<lparr>Header = corsHeaders, wroteStatus = Some 200, wroteBody = []\<rparr>, [])"
  by (simp add: endpoint_def corsMiddleware_def newResponseWriter_def HeaderSet_def
      corsHeaders_def WriteHeader_def StatusOK_def)

lemma corsWriter_fresh [simp]: "wroteStatus corsWriter = None" "wroteBody corsWriter = []"
  by (simp_all add: corsWriter_def)

lemma endpoint_valid:
  assumes "validFront wd r req"
  shows "endpoint wd r =
     (case sendToOllama wd (buildOllamaReq req) of
        (Inl err, posted) \<Rightarrow>
          (sendError (HeaderSet ''Content-Type'' CONTENT_TYPE_JSON corsWriter)
             (''Error calling Ollama API: '' @ err) ''server_error'' ''internal_error''
             StatusInternalServerError, posted)
      | (Inr ollamaResp, posted) \<Rightarrow>
          (Encode (ChatPayload (buildOpenAIResp wd (buildOllamaReq req) ollamaResp))
             (HeaderSet ''Content-Type'' CONTENT_TYPE_JSON corsWriter), posted))"
proof -
  from assms have m: "Method r = MethodPost" and d: "jsonDecode wd (ReqBody r) = Some req"
    and ms: "Messages req \<noteq> []" and md: "Model req \<noteq> []"
    by (simp_all add: validFront_def)
  from m have "endpoint wd r = handleChatCompletions wd corsWriter r"
    by (simp add: endpoint_not_options methods_differ)
  with m d ms md show ?thesis
    by (simp add: handleChatCompletions_def Let_def)
qed

lemma snd_sendToOllama:
  "snd (sendToOllama wd req) = (if isl (jsonMarshal wd req) then [] else [req])"
  by (simp add: sendToOllama_def split: sum.split option.split)

lemma posted_valid:
  "validFront wd r req \<Longrightarrow>
   snd (endpoint wd r) =
     (if isl (jsonMarshal wd (buildOllamaReq req)) then [] else [buildOllamaReq req])"
proof -
  assume v: "validFront wd r req"
  obtain res posted where s: "sendToOllama wd (buildOllamaReq req) = (res, posted)"
    by (cases "sendToOllama wd (buildOllamaReq req)")
  then have "snd (endpoint wd r) = posted"
    using v by (cases res) (simp_all add: endpoint_valid)
  with s snd_sendToOllama [of wd "buildOllamaReq req"] show ?thesis by simp
qed

lemma endpoint_success:
  "validFront wd r req \<Longrightarrow> sendToOllama wd (buildOllamaReq req) = (Inr resp, posted) \<Longrightarrow>
   finalStatus (fst (endpoint wd r)) = 200 \<and>
   wroteBody (fst (endpoint wd r)) =
     [ChatPayload (buildOpenAIResp wd (buildOllamaReq req) resp)]"
  by (simp add: endpoint_valid finalStatus_Encode wroteBody_Encode)

lemma endpoint_backend_error:
  "validFront wd r req \<Longrightarrow> sendToOllama wd (buildOllamaReq req) = (Inl err, posted) \<Longrightarrow>
   finalStatus (fst (endpoint wd r)) = 500 \<and>
   wroteBody (fst (endpoint wd r)) =
     [errorPayload (''Error calling Ollama API: '' @ err) ''server_error'' ''internal_error'']"
  by (simp add: endpoint_valid finalStatus_sendError wroteBody_sendError
      StatusInternalServerError_def)

lemma buildOllamaReq_fields:
  "OllamaModel (buildOllamaReq q) = Model q"
  "Prompt (buildOllamaReq q) = convertMessagesToPrompt (Messages q)"
  "OllamaStream (buildOllamaReq q) = Stream q"
  "OptTemperature (Options (buildOllamaReq q)) = (if Temperature q > 0 then Temperature q else 0)"
  "NumPredict (Options (buildOllamaReq q)) = (if MaxTokens q > 0 then MaxTokens q else 0)"
  by (simp_all add: buildOllamaReq_def Let_def)

lemma fixedWorld_valid:
  "ms \<noteq> [] \<Longrightarrow> validFront (fixedWorld (Some (llama2Req ms)) p u) post (llama2Req ms)"
  by (simp add: validFront_def fixedWorld_def post_def llama2Req_def MethodPost_def)

lemma fixedWorld_success:
  "sendToOllama (fixedWorld d reply200 (Inr b)) q = (Inr b, [q])"
  by (simp add: sendToOllama_def fixedWorld_def reply200_def StatusOK_def)

section \<open>Token usage\<close>

text \<open>
  Claim C1, amended. A valid front request whose backend call succeeds is answered with
  status 200 and a usage block in which \<open>prompt_tokens\<close> is the prompt's length
  divided by four, \<open>completion_tokens\<close> is the completion's length divided by four, and
  \<open>total_tokens\<close> is the sum of the two lengths divided by four: at least the sum of
  the other two fields and at most one more.
\<close>

theorem usage_tokens:
  assumes "validFront wd r req"
    and "sendToOllama wd (buildOllamaReq req) = (Inr resp, posted)"
  shows "finalStatus (fst (endpoint wd r)) = 200 \<and>
     map payloadUsage (wroteBody (fst (endpoint wd r))) =
       [Some \<lparr>PromptTokens = int (length (convertMessagesToPrompt (Messages req))) div 4,
              CompletionTokens = int (length (Response resp)) div 4,
              TotalTokens = (int (length (convertMessagesToPrompt (Messages req)))
                             + int (length (Response resp))) div 4\<rparr>] \<and>
     int (length (convertMessagesToPrompt (Messages req))) div 4
       + int (length (Response resp)) div 4
       \<le> (int (length (convertMessagesToPrompt (Messages req)))
           + int (length (Response resp))) div 4 \<and>
     (int (length (convertMessagesToPrompt (Messages req)))
        + int (length (Response resp))) div 4
       \<le> int (length (convertMessagesToPrompt (Messages req))) div 4
           + int (length (Response resp)) div 4 + 1"
proof -
  have "map payloadUsage (wroteBody (fst (endpoint wd r))) =
          [Some (Usage (buildOpenAIResp wd (buildOllamaReq req) resp))]"
    using endpoint_success [OF assms] by simp
  moreover have "finalStatus (fst (endpoint wd r)) = 200"
    using endpoint_success [OF assms] by simp
  moreover have "\<And>a b :: int. a div 4 + b div 4 \<le> (a + b) div 4" by presburger
  moreover have "\<And>a b :: int. (a + b) div 4 \<le> a div 4 + b div 4 + 1" by presburger
  ultimately show ?thesis
    by (simp add: buildOpenAIResp_def buildOllamaReq_fields)
qed


theorem usage_tokens_witness:
  "validFront (fixedWorld (Some (llama2Req [userMsg ''Hi''])) reply200
       (Inr (backResp ''Hello'' True))) post (llama2Req [userMsg ''Hi'']) \<and>
   sendToOllama (fixedWorld (Some (llama2Req [userMsg ''Hi''])) reply200
       (Inr (backResp ''Hello'' True))) (buildOllamaReq (llama2Req [userMsg ''Hi'']))
     = (Inr (backResp ''Hello'' True), [buildOllamaReq (llama2Req [userMsg ''Hi''])]) \<and>
   finalStatus (fst (endpoint (fixedWorld (Some (llama2Req [userMsg ''Hi''])) reply200
       (Inr (backResp ''Hello'' True))) post)) = 200 \<and>
   map payloadUsage (wroteBody (fst (endpoint (fixedWorld (Some (llama2Req [userMsg ''Hi'']))
       reply200 (Inr (backResp ''Hello'' True))) post)))
     = [Some \<lparr>PromptTokens = 2, CompletionTokens = 1, TotalTokens = 3\<rparr>]"
proof -
  let ?q = "llama2Req [userMsg ''Hi'']"
  let ?w = "fixedWorld (Some ?q) reply200 (Inr (backResp ''Hello'' True))"
  have v: "validFront ?w post ?q"
    by (rule fixedWorld_valid) simp
  have s: "sendToOllama ?w (buildOllamaReq ?q) = (Inr (backResp ''Hello'' True), [buildOllamaReq ?q])"
    by (rule fixedWorld_success)
  have len: "convertMessagesToPrompt (Messages ?q) = ''user: Hi\<newline>''"
    by (simp add: convertMessagesToPrompt_def llama2Req_def userMsg_def)
  from usage_tokens [OF v s] have
    "finalStatus (fst (endpoint ?w post)) = 200 \<and>
     map payloadUsage (wroteBody (fst (endpoint ?w post))) =
       [Some \<lparr>PromptTokens = 2, CompletionTokens = 1, TotalTokens = 3\<rparr>]"
    unfolding len by (simp add: backResp_def)
  with v s show ?thesis by blast
qed

theorem total_tokens_counterexample:
  "finalStatus (fst (endpoint (fixedWorld (Some (llama2Req [userMsg ''Hey''])) reply200
       (Inr (backResp ''Hello!'' True))) post)) = 200 \<and>
   map payloadUsage (wroteBody (fst (endpoint (fixedWorld (Some (llama2Req [userMsg ''Hey'']))
       reply200 (Inr (backResp ''Hello!'' True))) post)))
     = [Some \<lparr>PromptTokens = 2, CompletionTokens = 1, TotalTokens = 4\<rparr>] \<and>
   \<not> usageAdds \<lparr>PromptTokens = 2, CompletionTokens = 1, TotalTokens = 4\<rparr>"
proof -
  let ?q = "llama2Req [userMsg ''Hey'']"
  let ?w = "fixedWorld (Some ?q) reply200 (Inr (backResp ''Hello!'' True))"
  have v: "validFront ?w post ?q"
    by (rule fixedWorld_valid) simp
  have s: "sendToOllama ?w (buildOllamaReq ?q) = (Inr (backResp ''Hello!'' True), [buildOllamaReq ?q])"
    by (rule fixedWorld_success)
  have len: "Prompt (buildOllamaReq ?q) = ''user: Hey\<newline>''"
    by (simp add: buildOllamaReq_fields convertMessagesToPrompt_def llama2Req_def userMsg_def)
  from endpoint_success [OF v s] show ?thesis
    by (simp add: buildOpenAIResp_def len backResp_def usageAdds_def)
qed

lemma endpoint_post:
  "Method r = MethodPost \<Longrightarrow> endpoint wd r = handleChatCompletions wd corsWriter r"
  by (simp add: endpoint_not_options methods_differ)

lemma endpoint_undecodable:
  "Method r = MethodPost \<Longrightarrow> jsonDecode wd (ReqBody r) = None \<Longrightarrow>
   endpoint wd r =
     (sendError (HeaderSet ''Content-Type'' CONTENT_TYPE_JSON corsWriter)
        ''Invalid request body'' ''invalid_request_error'' ''invalid_body'' StatusBadRequest, [])"
  by (simp add: endpoint_post handleChatCompletions_def)

lemma endpoint_no_messages:
  "Method r = MethodPost \<Longrightarrow> jsonDecode wd (ReqBody r) = Some q \<Longrightarrow> Messages q = [] \<Longrightarrow>
   endpoint wd r =
     (sendError (HeaderSet ''Content-Type'' CONTENT_TYPE_JSON corsWriter)
        ''Messages array is empty'' ''invalid_request_error'' ''invalid_messages''
        StatusBadRequest, [])"
  by (simp add: endpoint_post handleChatCompletions_def)

lemma endpoint_no_model:
  "Method r = MethodPost \<Longrightarrow> jsonDecode wd (ReqBody r) = Some q \<Longrightarrow> Messages q \<noteq> [] \<Longrightarrow>
   Model q = [] \<Longrightarrow>
   endpoint wd r =
     (sendError (HeaderSet ''Content-Type'' CONTENT_TYPE_JSON corsWriter)
        ''Model is required'' ''invalid_request_error'' ''invalid_model'' StatusBadRequest, [])"
  by (simp add: endpoint_post handleChatCompletions_def)

lemma endpoint_other_method:
  "Method r \<noteq> MethodPost \<Longrightarrow> Method r \<noteq> MethodOptions \<Longrightarrow>
   endpoint wd r =
     (sendError (HeaderSet ''Content-Type'' CONTENT_TYPE_JSON corsWriter)
        ''Method not allowed'' ''invalid_request_error'' ''method_not_allowed''
        StatusMethodNotAllowed, [])"
  by (simp add: endpoint_not_options handleChatCompletions_def)

lemma sendError_prepared:
  "finalStatus (sendError (HeaderSet k v corsWriter) m t c s) = s"
  "wroteBody (sendError (HeaderSet k v corsWriter) m t c s) = [errorPayload m t c]"
  by (simp_all add: finalStatus_sendError wroteBody_sendError)

section \<open>Rejected requests\<close>




section \<open>Methods\<close>

text \<open>
  Claim C8. A request whose method is neither POST nor OPTIONS is answered with status 405
  and the error \<open>invalid_request_error\<close> / \<open>method_not_allowed\<close>; an OPTIONS request is
  answered with status 200, the cross-origin headers and no body.
\<close>

theorem method_dispatch:
  "(Method r \<noteq> MethodPost \<and> Method r \<noteq> MethodOptions \<longrightarrow>
      finalStatus (fst (endpoint wd r)) = 405 \<and>
      wroteBody (fst (endpoint wd r)) =
        [errorPayload ''Method not allowed'' ''invalid_request_error'' ''method_not_allowed''] \<and>
      snd (endpoint wd r) = []) \<and>
   (Method r = MethodOptions \<longrightarrow>
      finalStatus (fst (endpoint wd r)) = 200 \<and>
      wroteBody (fst (endpoint wd r)) = [] \<and>
      Header (fst (endpoint wd r)) = corsHeaders \<and>
      snd (endpoint wd r) = [])"
proof (intro conjI impI)
  assume "Method r \<noteq> MethodPost \<and> Method r \<noteq> MethodOptions"
  then have e: "endpoint wd r =
     (sendError (HeaderSet ''Content-Type'' CONTENT_TYPE_JSON corsWriter)
        ''Method not allowed'' ''invalid_request_error'' ''method_not_allowed''
        StatusMethodNotAllowed, [])"
    by (simp add: endpoint_other_method)
  show "finalStatus (fst (endpoint wd r)) = 405"
    by (simp add: e sendError_prepared StatusMethodNotAllowed_def)
  show "wroteBody (fst (endpoint wd r)) =
        [errorPayload ''Method not allowed'' ''invalid_request_error'' ''method_not_allowed'']"
    by (simp add: e sendError_prepared)
  show "snd (endpoint wd r) = []"
    by (simp add: e)
next
  assume o: "Method r = MethodOptions"
  show "finalStatus (fst (endpoint wd r)) = 200"
    by (simp add: endpoint_options [OF o] finalStatus_def)
  show "wroteBody (fst (endpoint wd r)) = []"
    by (simp add: endpoint_options [OF o])
  show "Header (fst (endpoint wd r)) = corsHeaders"
    by (simp add: endpoint_options [OF o])
  show "snd (endpoint wd r) = []"
    by (simp add: endpoint_options [OF o])
qed

theorem method_dispatch_witness:
  "finalStatus (fst (endpoint (fixedWorld None reply200 (Inr (backResp ''Hello'' True)))
      \<lparr>Method = ''GET'', ReqBody = []\<rparr>)) = 405 \<and>
   wroteBody (fst (endpoint (fixedWorld None reply200 (Inr (backResp ''Hello'' True)))
      \<lparr>Method = ''GET'', ReqBody = []\<rparr>)) =
     [errorPayload ''Method not allowed'' ''invalid_request_error'' ''method_not_allowed''] \<and>
   finalStatus (fst (endpoint (fixedWorld None reply200 (Inr (backResp ''Hello'' True)))
      \<lparr>Method = ''OPTIONS'', ReqBody = []\<rparr>)) = 200 \<and>
   wroteBody (fst (endpoint (fixedWorld None reply200 (Inr (backResp ''Hello'' True)))
      \<lparr>Method = ''OPTIONS'', ReqBody = []\<rparr>)) = []"
proof -
  let ?w = "fixedWorld None reply200 (Inr (backResp ''Hello'' True))"
  let ?get = "\<lparr>Method = ''GET'', ReqBody = []\<rparr>"
  let ?opt = "\<lparr>Method = ''OPTIONS'', ReqBody = []\<rparr>"
  have g: "Method ?get \<noteq> MethodPost \<and> Method ?get \<noteq> MethodOptions"
    by (simp add: MethodPost_def MethodOptions_def)
  have p: "Method ?opt = MethodOptions"
    by (simp add: MethodOptions_def)
  from method_dispatch [of ?get ?w] g
  have a: "finalStatus (fst (endpoint ?w ?get)) = 405 \<and>
           wroteBody (fst (endpoint ?w ?get)) =
             [errorPayload ''Method not allowed'' ''invalid_request_error''
                ''method_not_allowed'']"
    by blast
  from method_dispatch [of ?opt ?w] p
  have b: "finalStatus (fst (endpoint ?w ?opt)) = 200 \<and> wroteBody (fst (endpoint ?w ?opt)) = []"
    by blast
  from a b show ?thesis by blast
qed

section \<open>The successful response\<close>

text \<open>
  Claim C7. A valid front request whose backend call succeeds is answered with status 200
  and one chat response: it has exactly one choice, with index 0, role \<open>assistant\<close>, the
  backend's \<open>response\<close> text as content and finish reason \<open>stop\<close>; its object is
  \<open>chat.completion\<close> and its model is the front request's model.
\<close>

theorem success_response_shape:
  assumes "validFront wd r q"
    and "sendToOllama wd (buildOllamaReq q) = (Inr resp, posted)"
  shows "finalStatus (fst (endpoint wd r)) = 200 \<and>
         wroteBody (fst (endpoint wd r)) =
           [ChatPayload (buildOpenAIResp wd (buildOllamaReq q) resp)] \<and>
         Choices (buildOpenAIResp wd (buildOllamaReq q) resp) =
           [\<lparr>Index = 0, Message = \<lparr>Role = ''assistant'', Content = Response resp\<rparr>,
             FinishReason = ''stop''\<rparr>] \<and>
         Object (buildOpenAIResp wd (buildOllamaReq q) resp) = ''chat.completion'' \<and>
         RespModel (buildOpenAIResp wd (buildOllamaReq q) resp) = Model q"
  using endpoint_success [OF assms]
  by (simp add: buildOpenAIResp_def buildOllamaReq_fields)

lemma fixedWorld_id: "generateRandomString (fixedWorld d p u) 10 = ''greatJobOn''"
  by (simp add: generateRandomString_def Intn_def fixedWorld_def letters_def upt_rec)

lemma fixedWorld_time: "getCurrentUnixTimestamp (fixedWorld d p u) = 1700000000"
  by (simp add: getCurrentUnixTimestamp_def fixedWorld_def)

theorem success_response_shape_witness:
  "validFront (fixedWorld (Some (llama2Req [userMsg ''Hi''])) reply200
       (Inr (backResp ''Hello'' True))) post (llama2Req [userMsg ''Hi'']) \<and>
   finalStatus (fst (endpoint (fixedWorld (Some (llama2Req [userMsg ''Hi''])) reply200
       (Inr (backResp ''Hello'' True))) post)) = 200 \<and>
   wroteBody (fst (endpoint (fixedWorld (Some (llama2Req [userMsg ''Hi''])) reply200
       (Inr (backResp ''Hello'' True))) post)) =
     [ChatPayload
        \<lparr>ID = ''chatcmpl-greatJobOn'', Object = ''chat.completion'', Created = 1700000000,
         RespModel = ''llama2'',
         Choices = [\<lparr>Index = 0, Message = \<lparr>Role = ''assistant'', Content = ''Hello''\<rparr>,
                     FinishReason = ''stop''\<rparr>],
         Usage = \<lparr>PromptTokens = 2, CompletionTokens = 1, TotalTokens = 3\<rparr>\<rparr>]"
proof -
  let ?q = "llama2Req [userMsg ''Hi'']"
  let ?w = "fixedWorld (Some ?q) reply200 (Inr (backResp ''Hello'' True))"
  have v: "validFront ?w post ?q"
    by (rule fixedWorld_valid) simp
  have s: "sendToOllama ?w (buildOllamaReq ?q) = (Inr (backResp ''Hello'' True), [buildOllamaReq ?q])"
    by (rule fixedWorld_success)
  have p: "Prompt (buildOllamaReq ?q) = ''user: Hi\<newline>''"
    by (simp add: buildOllamaReq_fields convertMessagesToPrompt_def llama2Req_def userMsg_def)
  have m: "OllamaModel (buildOllamaReq ?q) = ''llama2''"
    by (simp add: buildOllamaReq_fields llama2Req_def)
  have b: "buildOpenAIResp ?w (buildOllamaReq ?q) (backResp ''Hello'' True) =
     \<lparr>ID = ''chatcmpl-greatJobOn'', Object = ''chat.completion'', Created = 1700000000,
      RespModel = ''llama2'',
      Choices = [\<lparr>Index = 0, Message = \<lparr>Role = ''assistant'', Content = ''Hello''\<rparr>,
                  FinishReason = ''stop''\<rparr>],
      Usage = \<lparr>PromptTokens = 2, CompletionTokens = 1, TotalTokens = 3\<rparr>\<rparr>"
    by (simp add: buildOpenAIResp_def p m fixedWorld_time fixedWorld_id backResp_def)
  from success_response_shape [OF v s] v show ?thesis
    unfolding b by blast
qed

section \<open>The request sent to the backend\<close>

text \<open>
  Claim C5. For a valid front request, the backend request's temperature option is set
  exactly when the front temperature is strictly positive, and then carries the same
  value; its \<open>num_predict\<close> option is set exactly when the front max-token count is
  strictly positive, and then carries the same value. That request is the one posted.
\<close>

theorem sampling_options_forwarded:
  assumes "validFront wd r q"
  shows "(temperatureSet (Options (buildOllamaReq q)) \<longleftrightarrow> Temperature q > 0) \<and>
         (Temperature q > 0 \<longrightarrow> OptTemperature (Options (buildOllamaReq q)) = Temperature q) \<and>
         (numPredictSet (Options (buildOllamaReq q)) \<longleftrightarrow> MaxTokens q > 0) \<and>
         (MaxTokens q > 0 \<longrightarrow> NumPredict (Options (buildOllamaReq q)) = MaxTokens q) \<and>
         snd (endpoint wd r) =
           (if isl (jsonMarshal wd (buildOllamaReq q)) then [] else [buildOllamaReq q])"
  using posted_valid [OF assms]
  by (simp add: temperatureSet_def numPredictSet_def buildOllamaReq_fields)

lemma fixedWorld_marshal: "\<not> isl (jsonMarshal (fixedWorld d p u) b)"
  by (simp add: fixedWorld_def)

theorem sampling_options_forwarded_witness:
  "validFront (fixedWorld (Some ((llama2Req [userMsg ''Hi''])\<lparr>Temperature := 0.7, MaxTokens := 100\<rparr>))
       reply200 (Inr (backResp ''Hello'' True))) post
     ((llama2Req [userMsg ''Hi''])\<lparr>Temperature := 0.7, MaxTokens := 100\<rparr>) \<and>
   map Options (snd (endpoint (fixedWorld
       (Some ((llama2Req [userMsg ''Hi''])\<lparr>Temperature := 0.7, MaxTokens := 100\<rparr>))
       reply200 (Inr (backResp ''Hello'' True))) post)) =
     [\<lparr>OptTemperature = 0.7, NumPredict = 100\<rparr>] \<and>
   temperatureSet \<lparr>OptTemperature = 0.7, NumPredict = 100\<rparr> \<and>
   numPredictSet \<lparr>OptTemperature = 0.7, NumPredict = 100\<rparr> \<and>
   validFront (fixedWorld (Some ((llama2Req [userMsg ''Hi''])\<lparr>Temperature := - 1, MaxTokens := - 5\<rparr>))
       reply200 (Inr (backResp ''Hello'' True))) post
     ((llama2Req [userMsg ''Hi''])\<lparr>Temperature := - 1, MaxTokens := - 5\<rparr>) \<and>
   map Options (snd (endpoint (fixedWorld
       (Some ((llama2Req [userMsg ''Hi''])\<lparr>Temperature := - 1, MaxTokens := - 5\<rparr>))
       reply200 (Inr (backResp ''Hello'' True))) post)) =
     [\<lparr>OptTemperature = 0, NumPredict = 0\<rparr>] \<and>
   \<not> temperatureSet \<lparr>OptTemperature = 0, NumPredict = 0\<rparr> \<and>
   \<not> numPredictSet \<lparr>OptTemperature = 0, NumPredict = 0\<rparr>"
proof -
  let ?u = "Inr (backResp ''Hello'' True) :: string + OllamaResponse"
  let ?q1 = "(llama2Req [userMsg ''Hi''])\<lparr>Temperature := 0.7, MaxTokens := 100\<rparr>"
  let ?w1 = "fixedWorld (Some ?q1) reply200 ?u"
  let ?q2 = "(llama2Req [userMsg ''Hi''])\<lparr>Temperature := - 1, MaxTokens := - 5\<rparr>"
  let ?w2 = "fixedWorld (Some ?q2) reply200 ?u"
  have v1: "validFront ?w1 post ?q1"
    by (simp add: validFront_def fixedWorld_def post_def llama2Req_def MethodPost_def)
  have v2: "validFront ?w2 post ?q2"
    by (simp add: validFront_def fixedWorld_def post_def llama2Req_def MethodPost_def)
  have o1: "Options (buildOllamaReq ?q1) = \<lparr>OptTemperature = 0.7, NumPredict = 100\<rparr>"
    by (simp add: buildOllamaReq_def Let_def llama2Req_def)
  have o2: "Options (buildOllamaReq ?q2) = \<lparr>OptTemperature = 0, NumPredict = 0\<rparr>"
    by (simp add: buildOllamaReq_def Let_def llama2Req_def)
  from sampling_options_forwarded [OF v1]
  have a: "map Options (snd (endpoint ?w1 post)) = [\<lparr>OptTemperature = 0.7, NumPredict = 100\<rparr>]"
    by (simp add: fixedWorld_marshal o1)
  from sampling_options_forwarded [OF v2]
  have b: "map Options (snd (endpoint ?w2 post)) = [\<lparr>OptTemperature = 0, NumPredict = 0\<rparr>]"
    by (simp add: fixedWorld_marshal o2)
  have c: "temperatureSet \<lparr>OptTemperature = 0.7, NumPredict = 100\<rparr> \<and>
           numPredictSet \<lparr>OptTemperature = 0.7, NumPredict = 100\<rparr> \<and>
           \<not> temperatureSet \<lparr>OptTemperature = 0, NumPredict = 0\<rparr> \<and>
           \<not> numPredictSet \<lparr>OptTemperature = 0, NumPredict = 0\<rparr>"
    by (simp add: temperatureSet_def numPredictSet_def)
  from v1 v2 a b c show ?thesis by blast
qed

lemma one_body_written:
  assumes "validFront wd r q"
  shows "length (wroteBody (fst (endpoint wd r))) = 1"
proof -
  obtain res posted where s: "sendToOllama wd (buildOllamaReq q) = (res, posted)"
    by (cases "sendToOllama wd (buildOllamaReq q)")
  show ?thesis
  proof (cases res)
    case (Inl err)
    with s endpoint_backend_error [OF assms] show ?thesis by simp
  next
    case (Inr resp)
    with s endpoint_success [OF assms] show ?thesis by simp
  qed
qed

text \<open>
  Claim C2, amended. For a valid front request, the backend request carries the front
  request's stream flag unchanged, and that request is the one posted. Whatever the flag,
  the handler writes exactly one body to the caller.
\<close>

theorem stream_flag_forwarded:
  assumes "validFront wd r q"
  shows "OllamaStream (buildOllamaReq q) = Stream q \<and>
         snd (endpoint wd r) =
           (if isl (jsonMarshal wd (buildOllamaReq q)) then [] else [buildOllamaReq q]) \<and>
         length (wroteBody (fst (endpoint wd r))) = 1"
  using posted_valid [OF assms] one_body_written [OF assms]
  by (simp add: buildOllamaReq_fields)

theorem stream_flag_forwarded_witness:
  "validFront (fixedWorld (Some (llama2Req [userMsg ''Hi''])) reply200
       (Inr (backResp ''Hello'' True))) post (llama2Req [userMsg ''Hi'']) \<and>
   map OllamaStream (snd (endpoint (fixedWorld (Some (llama2Req [userMsg ''Hi''])) reply200
       (Inr (backResp ''Hello'' True))) post)) = [False] \<and>
   length (wroteBody (fst (endpoint (fixedWorld (Some (llama2Req [userMsg ''Hi''])) reply200
       (Inr (backResp ''Hello'' True))) post))) = 1"
proof -
  let ?q = "llama2Req [userMsg ''Hi'']"
  let ?w = "fixedWorld (Some ?q) reply200 (Inr (backResp ''Hello'' True))"
  have v: "validFront ?w post ?q"
    by (rule fixedWorld_valid) simp
  have f: "Stream ?q = False"
    by (simp add: llama2Req_def)
  from stream_flag_forwarded [OF v] f
  have "map OllamaStream (snd (endpoint ?w post)) = [False] \<and>
        length (wroteBody (fst (endpoint ?w post))) = 1"
    by (simp add: fixedWorld_marshal)
  with v show ?thesis by blast
qed

theorem stream_ignored_counterexample:
  "map OllamaStream (snd (endpoint
      (fixedWorld (Some ((llama2Req [userMsg ''Hi''])\<lparr>Stream := True\<rparr>)) reply200
         (Inr (backResp ''Hello'' True))) post)) = [True]"
proof -
  let ?q = "(llama2Req [userMsg ''Hi''])\<lparr>Stream := True\<rparr>"
  let ?w = "fixedWorld (Some ?q) reply200 (Inr (backResp ''Hello'' True))"
  have v: "validFront ?w post ?q"
    by (simp add: validFront_def fixedWorld_def post_def llama2Req_def MethodPost_def)
  from posted_valid [OF v] show ?thesis
    by (simp add: fixedWorld_marshal buildOllamaReq_fields)
qed

section \<open>What sendToOllama returns on a failure\<close>

lemma sendToOllama_transport:
  "jsonMarshal wd b = Inr jsonData \<Longrightarrow>
   httpPost wd (OLLAMA_API_BASE @ ''/api/generate'') CONTENT_TYPE_JSON jsonData = Inl e \<Longrightarrow>
   sendToOllama wd b = (Inl (''failed to connect to Ollama: '' @ e), [b])"
  by (simp add: sendToOllama_def)

lemma sendToOllama_status:
  "jsonMarshal wd b = Inr jsonData \<Longrightarrow>
   httpPost wd (OLLAMA_API_BASE @ ''/api/generate'') CONTENT_TYPE_JSON jsonData = Inr resp \<Longrightarrow>
   StatusCode resp \<noteq> 200 \<Longrightarrow>
   sendToOllama wd b =
     (Inl (''ollama API error (status '' @ fmtD (StatusCode resp) @ ''): '' @ Body resp), [b])"
  by (simp add: sendToOllama_def StatusOK_def)

lemma sublist_middle: "sublist xs (a @ b @ xs @ c)"
proof -
  have "a @ b @ xs @ c = (a @ b) @ xs @ c" by simp
  then show ?thesis unfolding sublist_def by blast
qed

lemma sublist_end: "sublist xs (a @ b @ c @ d @ xs)"
proof -
  have "a @ b @ c @ d @ xs = (a @ b @ c @ d) @ xs @ []" by simp
  then show ?thesis unfolding sublist_def by blast
qed

section \<open>The built response and the backend's reply\<close>

lemma buildOpenAIResp_cong:
  "randSource w1 = randSource w2 \<Longrightarrow> timeNowUnix w1 = timeNowUnix w2 \<Longrightarrow>
   Response a = Response b \<Longrightarrow> buildOpenAIResp w1 oq a = buildOpenAIResp w2 oq b"
  by (simp add: buildOpenAIResp_def generateRandomString_def Intn_def getCurrentUnixTimestamp_def)

section \<open>The scanner on well-formed text\<close>

lemma isSpace_space [simp]: "isSpace (CHR '' '')"
  by (simp add: isSpace_def)

lemma stepSound_goto [simp]:
  "\<not> endTop s \<Longrightarrow> \<not> closing code \<Longrightarrow> stepSound c (goto st code s)"
  by (simp add: stepSound_def goto_def)

lemma stepSound_same [simp]:
  "\<not> endTop s \<Longrightarrow> \<not> closing code \<Longrightarrow> stepSound c (s, code)"
  by (simp add: stepSound_def)

lemma stepSound_scanErr [simp]: "\<not> endTop s \<Longrightarrow> stepSound c (scanErr s)"
  by (simp add: stepSound_def scanErr_def closing_def)

lemma not_closing [simp]:
  "\<not> closing ScanContinue" "\<not> closing ScanBeginLiteral" "\<not> closing ScanSkipSpace"
  "\<not> closing ScanError" "\<not> closing ScanEnd" "\<not> closing ScanBeginObject"
  "\<not> closing ScanBeginArray" "\<not> closing ScanObjectKey" "\<not> closing ScanObjectValue"
  "\<not> closing ScanArrayValue"
  by (simp_all add: closing_def)

lemma stepSound_push [simp]:
  "\<not> endTop s \<Longrightarrow> \<not> closing code \<Longrightarrow> stepSound c (pushParseState s m code)"
  by (simp add: stepSound_def pushParseState_def scanErr_def Let_def)

lemma stepSound_stateEndValue [simp]:
  "\<not> endTop s \<Longrightarrow> stepSound c (stateEndValue s c)"
  by (simp add: stepSound_def stateEndValue_def stateEndTop_def scanErr_def popParseState_def
      closing_def split: list.split parseMode.split)

lemma stepSound_stateBeginValue [simp]:
  "\<not> endTop s \<Longrightarrow> stepSound c (stateBeginValue s c)"
  by (simp add: stateBeginValue_def del: set_simps)

lemma stepSound_stateBeginString [simp]:
  "\<not> endTop s \<Longrightarrow> stepSound c (stateBeginString s c)"
  by (simp add: stateBeginString_def)

lemma stepSound_state0 [simp]: "\<not> endTop s \<Longrightarrow> stepSound c (state0 s c)"
  by (simp add: state0_def)

lemma stepSound_stateESign [simp]: "\<not> endTop s \<Longrightarrow> stepSound c (stateESign s c)"
  by (simp add: stateESign_def)

lemma stepSound_scanStep:
  assumes "\<not> endTop s"
  shows "stepSound c (scanStep s c)"
proof (cases "step s")
  case StateBeginStringOrEmpty
  with assms show ?thesis
    by (simp add: scanStep_def stateBeginStringOrEmpty_def split: list.split)
next
  case StateEndTop
  with assms show ?thesis
    by (simp add: scanStep_def stateEndTop_def stepSound_def)
next
  case StateError
  with assms show ?thesis
    by (simp add: scanStep_def)
qed (use assms in \<open>simp_all add: scanStep_def stateBeginValueOrEmpty_def
      stateInString_def stateInStringEsc_def hexThen_def charThen_def state1_def
      stateNeg_def stateDot_def stateDot0_def stateE_def stateE0_def del: set_simps\<close>)

lemma invented_space:
  assumes "stepSound c (s', code)" and "closing code"
  shows "snd (stateEndValue s' (CHR '' '')) = ScanEnd \<or>
         (stateEndValue s' (CHR '' '') = (s', ScanSkipSpace) \<and> \<not> endTop s')"
proof (cases "parseState s'")
  case Nil
  then show ?thesis
    by (simp add: stateEndValue_def stateEndTop_def)
next
  case (Cons m rest)
  with assms have "step s' = StateEndValue" and "\<not> endTop s'"
    by (auto simp: stepSound_def closing_def)
  with Cons show ?thesis
    by (simp add: stateEndValue_def)
qed


lemma checkValid_readValue:
  "\<not> endTop s \<Longrightarrow> checkValidLoop s data \<Longrightarrow> readValueLoop s scanp data \<noteq> None"
proof (induction data arbitrary: s scanp)
  case Nil
  then have e: "endTop (fst (scanStep s (CHR '' '')))"
    by (auto simp: scanEof_def split: if_splits)
  from stepSound_scanStep [OF Nil(1), of "CHR '' ''"] e
  have "snd (scanStep s (CHR '' '')) = ScanEnd"
    by (auto simp: stepSound_def)
  then show ?case by simp
next
  case (Cons c data)
  obtain s' code where st: "scanStep s c = (s', code)"
    by (cases "scanStep s c")
  with Cons.prems(2) have ne: "code \<noteq> ScanError" and rest: "checkValidLoop s' data"
    by (auto split: if_splits)
  from stepSound_scanStep [OF Cons.prems(1), of c] st have snd: "stepSound c (s', code)"
    by simp
  show ?case
  proof (cases "code = ScanEnd")
    case True
    with st show ?thesis by simp
  next
    case False
    note notEnd = this
    show ?thesis
    proof (cases "closing code")
      case True
      then have cl: "code = ScanEndObject \<or> code = ScanEndArray"
        by (simp add: closing_def)
      from invented_space [OF snd True] show ?thesis
      proof
        assume "snd (stateEndValue s' (CHR '' '')) = ScanEnd"
        with st notEnd cl show ?thesis
          by (auto split: prod.splits)
      next
        assume a: "stateEndValue s' (CHR '' '') = (s', ScanSkipSpace) \<and> \<not> endTop s'"
        then have "readValueLoop s' (scanp + 1) data \<noteq> None"
          using Cons.IH rest by blast
        with st notEnd cl a show ?thesis
          by auto
      qed
    next
      case False
      with notEnd snd have "\<not> endTop s'"
        by (auto simp: stepSound_def)
      then have "readValueLoop s' (scanp + 1) data \<noteq> None"
        using Cons.IH rest by blast
      with st notEnd False ne show ?thesis
        by (auto simp: closing_def)
    qed
  qed
qed

lemma Valid_readValue: "Valid body \<Longrightarrow> readValue body \<noteq> None"
  unfolding Valid_def readValue_def
  by (rule checkValid_readValue) (simp_all add: scanReset_def)


section \<open>Requests rejected by the decoder and the two checks\<close>

lemmas scan_defs = scanStep_def stateBeginValueOrEmpty_def stateBeginValue_def
  stateBeginStringOrEmpty_def stateBeginString_def stateEndValue_def stateEndTop_def
  stateInString_def stateInStringEsc_def hexThen_def charThen_def state0_def state1_def
  stateNeg_def stateDot_def stateDot0_def stateESign_def stateE_def stateE0_def
  scanErr_def goto_def pushParseState_def popParseState_def scanReset_def scanEof_def
  isSpace_def isDigit_def isHex_def maxNestingDepth_def

lemma toValidUTF8_ascii_append:
  "isASCII a \<Longrightarrow> toValidUTF8 (a @ b) = a @ toValidUTF8 b"
  by (induction a) (simp_all add: isASCII_def toValidUTF8.simps)

lemma toValidUTF8_ascii: "isASCII a \<Longrightarrow> toValidUTF8 a = a"
  using toValidUTF8_ascii_append [of a "[]"] by (simp add: toValidUTF8.simps)

lemma wireValue_errorPayload:
  "wireValue (errorPayload m t c) = errorPayload (toValidUTF8 m) (toValidUTF8 t) (toValidUTF8 c)"
  by (simp add: errorPayload_def)

lemma responseBody_sendError:
  "responseBody (sendError (HeaderSet k v corsWriter) m t c s) =
     [errorPayload (toValidUTF8 m) (toValidUTF8 t) (toValidUTF8 c)]"
  by (simp add: responseBody_def sendError_prepared wireValue_errorPayload)

lemma ascii_texts:
  "isASCII ''invalid_request_error''" "isASCII ''server_error''" "isASCII ''internal_error''"
  "isASCII ''invalid_body''" "isASCII ''invalid_messages''" "isASCII ''invalid_model''"
  "isASCII ''Invalid request body''" "isASCII ''Messages array is empty''"
  "isASCII ''Model is required''"
  by (simp_all add: isASCII_def byte_def)

lemma endpoint_Decode_None:
  assumes "Method r = MethodPost" and "jsonDecode wd = Decode unmarshal"
    and "Decode unmarshal (ReqBody r) = None"
  shows "finalStatus (fst (endpoint wd r)) = 400 \<and>
         responseBody (fst (endpoint wd r)) =
           [errorPayload ''Invalid request body'' ''invalid_request_error'' ''invalid_body''] \<and>
         snd (endpoint wd r) = []"
  using assms
  by (simp add: endpoint_undecodable sendError_prepared responseBody_sendError
      StatusBadRequest_def toValidUTF8_ascii ascii_texts)

text \<open>
  Claim C4, amended. For a POST whose body goes through \<open>Decode\<close>: a body that does not
  start with one complete JSON value (such a body is never well-formed JSON), or whose
  first JSON value does not unmarshal into the request, is answered with status 400 and
  \<open>invalid_request_error\<close> / \<open>invalid_body\<close>; a body whose first JSON value unmarshals to
  a request with an empty message list with 400 and \<open>invalid_messages\<close>; one whose first
  JSON value unmarshals to a non-empty message list and an empty model with 400 and
  \<open>invalid_model\<close>. Nothing is posted to the backend in these cases. The bytes after the
  first JSON value play no part.
\<close>

theorem request_validation:
  assumes "Method r = MethodPost" and "jsonDecode wd = Decode unmarshal"
  shows "(readValue (ReqBody r) = None \<longrightarrow>
            \<not> Valid (ReqBody r) \<and>
            finalStatus (fst (endpoint wd r)) = 400 \<and>
            responseBody (fst (endpoint wd r)) =
              [errorPayload ''Invalid request body'' ''invalid_request_error'' ''invalid_body''] \<and>
            snd (endpoint wd r) = []) \<and>
         (\<forall>n. readValue (ReqBody r) = Some n \<and> unmarshal (take n (ReqBody r)) = None \<longrightarrow>
            finalStatus (fst (endpoint wd r)) = 400 \<and>
            responseBody (fst (endpoint wd r)) =
              [errorPayload ''Invalid request body'' ''invalid_request_error'' ''invalid_body''] \<and>
            snd (endpoint wd r) = []) \<and>
         (\<forall>n q. readValue (ReqBody r) = Some n \<and> unmarshal (take n (ReqBody r)) = Some q \<and>
            Messages q = [] \<longrightarrow>
            finalStatus (fst (endpoint wd r)) = 400 \<and>
            responseBody (fst (endpoint wd r)) =
              [errorPayload ''Messages array is empty'' ''invalid_request_error''
                 ''invalid_messages''] \<and>
            snd (endpoint wd r) = []) \<and>
         (\<forall>n q. readValue (ReqBody r) = Some n \<and> unmarshal (take n (ReqBody r)) = Some q \<and>
            Messages q \<noteq> [] \<and> Model q = [] \<longrightarrow>
            finalStatus (fst (endpoint wd r)) = 400 \<and>
            responseBody (fst (endpoint wd r)) =
              [errorPayload ''Model is required'' ''invalid_request_error'' ''invalid_model''] \<and>
            snd (endpoint wd r) = [])"
proof (intro conjI allI impI)
  assume n: "readValue (ReqBody r) = None"
  then show "\<not> Valid (ReqBody r)"
    using Valid_readValue by blast
  from n have "Decode unmarshal (ReqBody r) = None"
    by (simp add: Decode_def)
  from endpoint_Decode_None [OF assms this]
  show "finalStatus (fst (endpoint wd r)) = 400"
    and "responseBody (fst (endpoint wd r)) =
          [errorPayload ''Invalid request body'' ''invalid_request_error'' ''invalid_body'']"
    and "snd (endpoint wd r) = []"
    by blast+
next
  fix n
  assume "readValue (ReqBody r) = Some n \<and> unmarshal (take n (ReqBody r)) = None"
  then have "Decode unmarshal (ReqBody r) = None"
    by (simp add: Decode_def)
  from endpoint_Decode_None [OF assms this]
  show "finalStatus (fst (endpoint wd r)) = 400"
    and "responseBody (fst (endpoint wd r)) =
          [errorPayload ''Invalid request body'' ''invalid_request_error'' ''invalid_body'']"
    and "snd (endpoint wd r) = []"
    by blast+
next
  fix n q
  assume a: "readValue (ReqBody r) = Some n \<and> unmarshal (take n (ReqBody r)) = Some q \<and>
             Messages q = []"
  then have d: "jsonDecode wd (ReqBody r) = Some q"
    by (simp add: assms(2) Decode_def)
  from a have m: "Messages q = []" by simp
  show "finalStatus (fst (endpoint wd r)) = 400"
    by (simp add: endpoint_no_messages [OF assms(1) d m] sendError_prepared StatusBadRequest_def)
  show "responseBody (fst (endpoint wd r)) =
          [errorPayload ''Messages array is empty'' ''invalid_request_error''
             ''invalid_messages'']"
    by (simp add: endpoint_no_messages [OF assms(1) d m] responseBody_sendError
        toValidUTF8_ascii ascii_texts)
  show "snd (endpoint wd r) = []"
    by (simp add: endpoint_no_messages [OF assms(1) d m])
next
  fix n q
  assume a: "readValue (ReqBody r) = Some n \<and> unmarshal (take n (ReqBody r)) = Some q \<and>
             Messages q \<noteq> [] \<and> Model q = []"
  then have d: "jsonDecode wd (ReqBody r) = Some q"
    by (simp add: assms(2) Decode_def)
  from a have m: "Messages q \<noteq> []" and e: "Model q = []" by simp_all
  show "finalStatus (fst (endpoint wd r)) = 400"
    by (simp add: endpoint_no_model [OF assms(1) d m e] sendError_prepared StatusBadRequest_def)
  show "responseBody (fst (endpoint wd r)) =
          [errorPayload ''Model is required'' ''invalid_request_error'' ''invalid_model'']"
    by (simp add: endpoint_no_model [OF assms(1) d m e] responseBody_sendError
        toValidUTF8_ascii ascii_texts)
  show "snd (endpoint wd r) = []"
    by (simp add: endpoint_no_model [OF assms(1) d m e])
qed

lemma decodingWorld_decoder: "jsonDecode decodingWorld = Decode exampleUnmarshal"
  by (simp add: decodingWorld_def)

lemma scan_not_json: "readValue ''this is not json'' = None"
  by (simp add: readValue_def scan_defs)

lemma scan_wrong_type: "readValue ''{\"messages\":[],\"model\":5}'' = Some 25"
  by (simp add: readValue_def scan_defs)

lemma valid_wrong_type: "Valid ''{\"messages\":[],\"model\":5}''"
  by (simp add: Valid_def scan_defs)

lemma scan_no_messages: "readValue ''{\"model\":\"llama2\",\"messages\":[]}'' = Some 32"
  by (simp add: readValue_def scan_defs)

lemma scan_no_model:
  "readValue ''{\"model\":\"\",\"messages\":[{\"role\":\"user\",\"content\":\"Hi\"}]}'' = Some 56"
  by (simp add: readValue_def scan_defs)


lemma decodingWorld_backend:
  "sendToOllama decodingWorld oq = (Inr (backResp ''Hello'' True), [oq])"
  by (simp add: sendToOllama_def decodingWorld_def fixedWorld_def reply200_def StatusOK_def)

theorem request_validation_witness:
  "readValue ''this is not json'' = None \<and>
   finalStatus (fst (endpoint decodingWorld
      \<lparr>Method = ''POST'', ReqBody = ''this is not json''\<rparr>)) = 400 \<and>
   responseBody (fst (endpoint decodingWorld
      \<lparr>Method = ''POST'', ReqBody = ''this is not json''\<rparr>)) =
     [errorPayload ''Invalid request body'' ''invalid_request_error'' ''invalid_body''] \<and>
   snd (endpoint decodingWorld \<lparr>Method = ''POST'', ReqBody = ''this is not json''\<rparr>) = [] \<and>
   Valid ''{\"messages\":[],\"model\":5}'' \<and>
   responseBody (fst (endpoint decodingWorld
      \<lparr>Method = ''POST'', ReqBody = ''{\"messages\":[],\"model\":5}''\<rparr>)) =
     [errorPayload ''Invalid request body'' ''invalid_request_error'' ''invalid_body''] \<and>
   responseBody (fst (endpoint decodingWorld
      \<lparr>Method = ''POST'', ReqBody = ''{\"model\":\"llama2\",\"messages\":[]}''\<rparr>)) =
     [errorPayload ''Messages array is empty'' ''invalid_request_error'' ''invalid_messages''] \<and>
   responseBody (fst (endpoint decodingWorld
      \<lparr>Method = ''POST'',
       ReqBody = ''{\"model\":\"\",\"messages\":[{\"role\":\"user\",\"content\":\"Hi\"}]}''\<rparr>)) =
     [errorPayload ''Model is required'' ''invalid_request_error'' ''invalid_model'']"
proof -
  let ?r1 = "\<lparr>Method = ''POST'', ReqBody = ''this is not json''\<rparr>"
  let ?r2 = "\<lparr>Method = ''POST'', ReqBody = ''{\"messages\":[],\"model\":5}''\<rparr>"
  let ?r3 = "\<lparr>Method = ''POST'', ReqBody = ''{\"model\":\"llama2\",\"messages\":[]}''\<rparr>"
  let ?r4 = "\<lparr>Method = ''POST'',
              ReqBody = ''{\"model\":\"\",\"messages\":[{\"role\":\"user\",\"content\":\"Hi\"}]}''\<rparr>"
  have m: "Method ?r1 = MethodPost" "Method ?r2 = MethodPost" "Method ?r3 = MethodPost"
    "Method ?r4 = MethodPost"
    by (simp_all add: MethodPost_def)
  have h1: "readValue (ReqBody ?r1) = None"
    by (simp add: scan_not_json)
  have h2: "readValue (ReqBody ?r2) = Some 25 \<and> exampleUnmarshal (take 25 (ReqBody ?r2)) = None"
    by (simp add: scan_wrong_type exampleUnmarshal_def exampleBody_def)
  have h3: "readValue (ReqBody ?r3) = Some 32 \<and>
            exampleUnmarshal (take 32 (ReqBody ?r3)) = Some (llama2Req []) \<and>
            Messages (llama2Req []) = []"
    by (simp add: scan_no_messages exampleUnmarshal_def exampleBody_def llama2Req_def)
  have h4: "readValue (ReqBody ?r4) = Some 56 \<and>
            exampleUnmarshal (take 56 (ReqBody ?r4)) =
              Some ((llama2Req [userMsg ''Hi''])\<lparr>Model := []\<rparr>) \<and>
            Messages ((llama2Req [userMsg ''Hi''])\<lparr>Model := []\<rparr>) \<noteq> [] \<and>
            Model ((llama2Req [userMsg ''Hi''])\<lparr>Model := []\<rparr>) = []"
    by (simp add: scan_no_model exampleUnmarshal_def exampleBody_def llama2Req_def)
  from request_validation [OF m(1) decodingWorld_decoder] h1
  have a: "finalStatus (fst (endpoint decodingWorld ?r1)) = 400 \<and>
           responseBody (fst (endpoint decodingWorld ?r1)) =
             [errorPayload ''Invalid request body'' ''invalid_request_error'' ''invalid_body''] \<and>
           snd (endpoint decodingWorld ?r1) = []"
    by blast
  from request_validation [OF m(2) decodingWorld_decoder] h2
  have b: "responseBody (fst (endpoint decodingWorld ?r2)) =
             [errorPayload ''Invalid request body'' ''invalid_request_error'' ''invalid_body'']"
    by blast
  from request_validation [OF m(3) decodingWorld_decoder] h3
  have c: "responseBody (fst (endpoint decodingWorld ?r3)) =
             [errorPayload ''Messages array is empty'' ''invalid_request_error''
                ''invalid_messages'']"
    by blast
  from request_validation [OF m(4) decodingWorld_decoder] h4
  have d: "responseBody (fst (endpoint decodingWorld ?r4)) =
             [errorPayload ''Model is required'' ''invalid_request_error'' ''invalid_model'']"
    by blast
  from a b c d valid_wrong_type scan_not_json show ?thesis
    by simp
qed

lemma scan_trailing:
  "readValue
     ''{\"model\":\"llama2\",\"messages\":[{\"role\":\"user\",\"content\":\"Hi\"}]}this is not json''
   = Some 62"
  by (simp add: readValue_def scan_defs)

lemma invalid_trailing:
  "\<not> Valid
     ''{\"model\":\"llama2\",\"messages\":[{\"role\":\"user\",\"content\":\"Hi\"}]}this is not json''"
  by (simp add: Valid_def scan_defs)

theorem trailing_bytes_counterexample:
  "\<not> Valid
     ''{\"model\":\"llama2\",\"messages\":[{\"role\":\"user\",\"content\":\"Hi\"}]}this is not json'' \<and>
   finalStatus (fst (endpoint decodingWorld
     \<lparr>Method = ''POST'',
      ReqBody = ''{\"model\":\"llama2\",\"messages\":[{\"role\":\"user\",\"content\":\"Hi\"}]}this is not json''\<rparr>))
     = 200 \<and>
   snd (endpoint decodingWorld
     \<lparr>Method = ''POST'',
      ReqBody = ''{\"model\":\"llama2\",\"messages\":[{\"role\":\"user\",\"content\":\"Hi\"}]}this is not json''\<rparr>)
     = [buildOllamaReq (llama2Req [userMsg ''Hi''])]"
proof -
  let ?body = "''{\"model\":\"llama2\",\"messages\":[{\"role\":\"user\",\"content\":\"Hi\"}]}this is not json''"
  let ?r = "\<lparr>Method = ''POST'', ReqBody = ?body\<rparr>"
  let ?q = "llama2Req [userMsg ''Hi'']"
  have d: "jsonDecode decodingWorld (ReqBody ?r) = Some ?q"
    by (simp add: decodingWorld_decoder Decode_def scan_trailing exampleUnmarshal_def
        exampleBody_def)
  have v: "validFront decodingWorld ?r ?q"
    using d by (simp add: validFront_def MethodPost_def llama2Req_def)
  have p: "snd (endpoint decodingWorld ?r) = [buildOllamaReq ?q]"
    using posted_valid [OF v] by (simp add: decodingWorld_def fixedWorld_def)
  from endpoint_success [OF v decodingWorld_backend] p invalid_trailing show ?thesis
    by blast
qed

section \<open>Backend failures as the caller reads them\<close>

lemma isASCII_append [simp]: "isASCII (a @ b) \<longleftrightarrow> isASCII a \<and> isASCII b"
  by (simp add: isASCII_def)

lemma isASCII_Cons: "isASCII (c # cs) \<longleftrightarrow> byte c < 0x80 \<and> isASCII cs"
  by (simp add: isASCII_def)

lemma isASCII_Nil: "isASCII []"
  by (simp add: isASCII_def)

lemma digit_ascii: "n < 10 \<Longrightarrow> byte (''0123456789'' ! n) < 0x80"
proof -
  assume "n < 10"
  then have "''0123456789'' ! n \<in> set ''0123456789''"
    by (intro nth_mem) simp
  moreover have "\<forall>c \<in> set ''0123456789''. byte c < 0x80"
    by (simp add: byte_def)
  ultimately show ?thesis by blast
qed

lemma natDigits_ascii: "isASCII (natDigits n)"
proof (induction n rule: natDigits.induct)
  case (1 n)
  show ?case
  proof (cases "n < 10")
    case True
    then show ?thesis
      by (subst natDigits.simps) (simp add: isASCII_def digit_ascii)
  next
    case False
    with 1 have "isASCII (natDigits (n div 10))" by simp
    moreover have "isASCII [''0123456789'' ! (n mod 10)]"
      by (simp add: isASCII_def digit_ascii)
    ultimately show ?thesis
      using False by (subst natDigits.simps) simp
  qed
qed

lemma fmtD_ascii: "isASCII (fmtD i)"
proof -
  have "byte (CHR ''-'') < 0x80" by (simp add: byte_def)
  then show ?thesis by (simp add: fmtD_def natDigits_ascii isASCII_Cons)
qed

lemma ascii_prefixes:
  "isASCII ''Error calling Ollama API: ''" "isASCII ''failed to connect to Ollama: ''"
  "isASCII ''ollama API error (status ''" "isASCII ''): ''"
  by (simp_all add: isASCII_def byte_def)

lemma endpoint_backend_error_wire:
  assumes "validFront wd r q" and "sendToOllama wd (buildOllamaReq q) = (Inl err, posted)"
  shows "finalStatus (fst (endpoint wd r)) = 500 \<and>
         responseBody (fst (endpoint wd r)) =
           [errorPayload (''Error calling Ollama API: '' @ toValidUTF8 err)
              ''server_error'' ''internal_error'']"
proof -
  have "toValidUTF8 (''Error calling Ollama API: '' @ err) =
        ''Error calling Ollama API: '' @ toValidUTF8 err"
    by (rule toValidUTF8_ascii_append) (rule ascii_prefixes)
  with endpoint_backend_error [OF assms] show ?thesis
    by (simp add: responseBody_def wireValue_errorPayload toValidUTF8_ascii ascii_texts)
qed

lemma status_text_wire:
  "toValidUTF8 (''ollama API error (status '' @ fmtD code @ ''): '' @ body) =
   ''ollama API error (status '' @ fmtD code @ ''): '' @ toValidUTF8 body"
proof -
  have "toValidUTF8 ((''ollama API error (status '' @ fmtD code @ ''): '') @ body) =
        (''ollama API error (status '' @ fmtD code @ ''): '') @ toValidUTF8 body"
    by (rule toValidUTF8_ascii_append) (simp add: fmtD_ascii byte_def isASCII_Cons isASCII_Nil)
  then show ?thesis by simp
qed

lemma transport_text_wire:
  "toValidUTF8 (''failed to connect to Ollama: '' @ e) =
   ''failed to connect to Ollama: '' @ toValidUTF8 e"
  by (rule toValidUTF8_ascii_append) (rule ascii_prefixes)

text \<open>
  Claim C6, amended. For a valid front request that was marshalled and posted: when the
  post fails at the transport level, or the backend answers with a status other than 200,
  the caller receives status 500 with the error \<open>server_error\<close> / \<open>internal_error\<close>. For
  a non-200 status the message the caller reads contains the decimal status code and the
  backend's body text with every byte that is not valid UTF-8 replaced by U+FFFD; it
  contains the raw body text when that is valid UTF-8.
\<close>

theorem backend_failure_reported:
  assumes "validFront wd r q" and "jsonMarshal wd (buildOllamaReq q) = Inr jsonData"
  shows "(\<forall>e. httpPost wd (OLLAMA_API_BASE @ ''/api/generate'') CONTENT_TYPE_JSON jsonData = Inl e \<longrightarrow>
            finalStatus (fst (endpoint wd r)) = 500 \<and>
            responseBody (fst (endpoint wd r)) =
              [errorPayload (''Error calling Ollama API: '' @ ''failed to connect to Ollama: '' @
                   toValidUTF8 e)
                 ''server_error'' ''internal_error'']) \<and>
         (\<forall>resp. httpPost wd (OLLAMA_API_BASE @ ''/api/generate'') CONTENT_TYPE_JSON jsonData = Inr resp \<and>
            StatusCode resp \<noteq> 200 \<longrightarrow>
            finalStatus (fst (endpoint wd r)) = 500 \<and>
            responseBody (fst (endpoint wd r)) =
              [errorPayload (''Error calling Ollama API: '' @ ''ollama API error (status '' @
                   fmtD (StatusCode resp) @ ''): '' @ toValidUTF8 (Body resp))
                 ''server_error'' ''internal_error''] \<and>
            sublist (fmtD (StatusCode resp))
              (''Error calling Ollama API: '' @ ''ollama API error (status '' @
                 fmtD (StatusCode resp) @ ''): '' @ toValidUTF8 (Body resp)) \<and>
            sublist (toValidUTF8 (Body resp))
              (''Error calling Ollama API: '' @ ''ollama API error (status '' @
                 fmtD (StatusCode resp) @ ''): '' @ toValidUTF8 (Body resp)) \<and>
            (validUTF8 (Body resp) \<longrightarrow>
               sublist (Body resp)
                 (''Error calling Ollama API: '' @ ''ollama API error (status '' @
                    fmtD (StatusCode resp) @ ''): '' @ toValidUTF8 (Body resp))))"
proof (intro conjI allI impI)
  fix e
  assume "httpPost wd (OLLAMA_API_BASE @ ''/api/generate'') CONTENT_TYPE_JSON jsonData = Inl e"
  from endpoint_backend_error_wire [OF assms(1) sendToOllama_transport [OF assms(2) this]]
  show "finalStatus (fst (endpoint wd r)) = 500"
    and "responseBody (fst (endpoint wd r)) =
          [errorPayload (''Error calling Ollama API: '' @ ''failed to connect to Ollama: '' @
               toValidUTF8 e)
             ''server_error'' ''internal_error'']"
    unfolding transport_text_wire by blast+
next
  fix resp
  assume h: "httpPost wd (OLLAMA_API_BASE @ ''/api/generate'') CONTENT_TYPE_JSON jsonData = Inr resp \<and>
             StatusCode resp \<noteq> 200"
  then have s: "sendToOllama wd (buildOllamaReq q) =
     (Inl (''ollama API error (status '' @ fmtD (StatusCode resp) @ ''): '' @ Body resp),
      [buildOllamaReq q])"
    using sendToOllama_status [OF assms(2)] by blast
  from endpoint_backend_error_wire [OF assms(1) s]
  show "finalStatus (fst (endpoint wd r)) = 500"
    and "responseBody (fst (endpoint wd r)) =
          [errorPayload (''Error calling Ollama API: '' @ ''ollama API error (status '' @
               fmtD (StatusCode resp) @ ''): '' @ toValidUTF8 (Body resp))
             ''server_error'' ''internal_error'']"
    unfolding status_text_wire by blast+
  show "sublist (fmtD (StatusCode resp))
          (''Error calling Ollama API: '' @ ''ollama API error (status '' @
             fmtD (StatusCode resp) @ ''): '' @ toValidUTF8 (Body resp))"
    by (rule sublist_middle)
  show "sublist (toValidUTF8 (Body resp))
          (''Error calling Ollama API: '' @ ''ollama API error (status '' @
             fmtD (StatusCode resp) @ ''): '' @ toValidUTF8 (Body resp))"
    by (rule sublist_end)
  assume "validUTF8 (Body resp)"
  then have e: "toValidUTF8 (Body resp) = Body resp"
    by (simp add: validUTF8_def)
  show "sublist (Body resp)
          (''Error calling Ollama API: '' @ ''ollama API error (status '' @
             fmtD (StatusCode resp) @ ''): '' @ toValidUTF8 (Body resp))"
    unfolding e by (rule sublist_end)
qed


lemma fmtD_examples: "fmtD 404 = ''404''" "fmtD 503 = ''503''"
  by (simp_all add: fmtD_def natDigits.simps)

lemma fixedWorld_post:
  "jsonMarshal (fixedWorld d p u) b = Inr ''{}''"
  "httpPost (fixedWorld d p u) url ct data = p"
  by (simp_all add: fixedWorld_def)

theorem backend_failure_reported_witness:
  "validFront (fixedWorld (Some (llama2Req [userMsg ''Hi''])) (Inl ''connection refused'')
       (Inr (backResp ''Hello'' True))) post (llama2Req [userMsg ''Hi'']) \<and>
   finalStatus (fst (endpoint (fixedWorld (Some (llama2Req [userMsg ''Hi'']))
       (Inl ''connection refused'') (Inr (backResp ''Hello'' True))) post)) = 500 \<and>
   responseBody (fst (endpoint (fixedWorld (Some (llama2Req [userMsg ''Hi'']))
       (Inl ''connection refused'') (Inr (backResp ''Hello'' True))) post)) =
     [errorPayload
        ''Error calling Ollama API: failed to connect to Ollama: connection refused''
        ''server_error'' ''internal_error''] \<and>
   validFront (fixedWorld (Some (llama2Req [userMsg ''Hi'']))
       (Inr \<lparr>StatusCode = 404, Body = ''model not found'', ReadErr = None\<rparr>)
       (Inr (backResp ''Hello'' True))) post (llama2Req [userMsg ''Hi'']) \<and>
   validUTF8 ''model not found'' \<and>
   finalStatus (fst (endpoint (fixedWorld (Some (llama2Req [userMsg ''Hi'']))
       (Inr \<lparr>StatusCode = 404, Body = ''model not found'', ReadErr = None\<rparr>)
       (Inr (backResp ''Hello'' True))) post)) = 500 \<and>
   responseBody (fst (endpoint (fixedWorld (Some (llama2Req [userMsg ''Hi'']))
       (Inr \<lparr>StatusCode = 404, Body = ''model not found'', ReadErr = None\<rparr>)
       (Inr (backResp ''Hello'' True))) post)) =
     [errorPayload
        ''Error calling Ollama API: ollama API error (status 404): model not found''
        ''server_error'' ''internal_error''] \<and>
   sublist ''model not found''
     ''Error calling Ollama API: ollama API error (status 404): model not found''"
proof -
  let ?q = "llama2Req [userMsg ''Hi'']"
  let ?u = "Inr (backResp ''Hello'' True) :: string + OllamaResponse"
  let ?w1 = "fixedWorld (Some ?q) (Inl ''connection refused'') ?u"
  let ?resp = "\<lparr>StatusCode = 404, Body = ''model not found'', ReadErr = None\<rparr>"
  let ?w2 = "fixedWorld (Some ?q) (Inr ?resp) ?u"
  let ?url = "OLLAMA_API_BASE @ ''/api/generate''"
  have v1: "validFront ?w1 post ?q" by (rule fixedWorld_valid) simp
  have v2: "validFront ?w2 post ?q" by (rule fixedWorld_valid) simp
  have m1: "jsonMarshal ?w1 (buildOllamaReq ?q) = Inr ''{}''" by (rule fixedWorld_post)
  have m2: "jsonMarshal ?w2 (buildOllamaReq ?q) = Inr ''{}''" by (rule fixedWorld_post)
  have p1: "httpPost ?w1 ?url CONTENT_TYPE_JSON ''{}'' = Inl ''connection refused''"
    by (rule fixedWorld_post)
  have p2: "httpPost ?w2 ?url CONTENT_TYPE_JSON ''{}'' = Inr ?resp \<and> StatusCode ?resp \<noteq> 200"
    by (simp add: fixedWorld_post)
  have t1: "toValidUTF8 ''connection refused'' = ''connection refused''"
    by (rule toValidUTF8_ascii) (simp add: isASCII_def byte_def)
  have t2: "toValidUTF8 ''model not found'' = ''model not found''"
    by (rule toValidUTF8_ascii) (simp add: isASCII_def byte_def)
  then have u2: "validUTF8 (Body ?resp)"
    by (simp add: validUTF8_def)
  from backend_failure_reported [OF v1 m1] p1
  have a: "finalStatus (fst (endpoint ?w1 post)) = 500 \<and>
           responseBody (fst (endpoint ?w1 post)) =
             [errorPayload (''Error calling Ollama API: '' @ ''failed to connect to Ollama: '' @
                toValidUTF8 ''connection refused'') ''server_error'' ''internal_error'']"
    by blast
  from backend_failure_reported [OF v2 m2] p2 u2
  have b: "finalStatus (fst (endpoint ?w2 post)) = 500 \<and>
           responseBody (fst (endpoint ?w2 post)) =
             [errorPayload (''Error calling Ollama API: '' @ ''ollama API error (status '' @
                fmtD (StatusCode ?resp) @ ''): '' @ toValidUTF8 (Body ?resp))
                ''server_error'' ''internal_error''] \<and>
           sublist (Body ?resp)
             (''Error calling Ollama API: '' @ ''ollama API error (status '' @
                fmtD (StatusCode ?resp) @ ''): '' @ toValidUTF8 (Body ?resp))"
    by blast
  from a b v1 v2 u2 show ?thesis
    by (simp add: fmtD_examples t1 t2)
qed

lemma replaced_bytes:
  "toValidUTF8 [CHR 0xFF, CHR 0xFE] = [CHR 0xEF, CHR 0xBF, CHR 0xBD, CHR 0xEF, CHR 0xBF, CHR 0xBD]"
  by (simp add: toValidUTF8.simps byte_def inRange_def replacementChar_def)

theorem raw_body_counterexample:
  "responseBody (fst (endpoint
      (fixedWorld (Some (llama2Req [userMsg ''Hi'']))
         (Inr \<lparr>StatusCode = 503, Body = [CHR 0xFF, CHR 0xFE], ReadErr = None\<rparr>)
         (Inr (backResp ''Hello'' True))) post)) =
     [errorPayload
        (''Error calling Ollama API: ollama API error (status 503): '' @
           [CHR 0xEF, CHR 0xBF, CHR 0xBD, CHR 0xEF, CHR 0xBF, CHR 0xBD])
        ''server_error'' ''internal_error''] \<and>
   \<not> sublist [CHR 0xFF, CHR 0xFE]
       (''Error calling Ollama API: ollama API error (status 503): '' @
          [CHR 0xEF, CHR 0xBF, CHR 0xBD, CHR 0xEF, CHR 0xBF, CHR 0xBD])"
proof -
  let ?q = "llama2Req [userMsg ''Hi'']"
  let ?resp = "\<lparr>StatusCode = 503, Body = [CHR 0xFF, CHR 0xFE], ReadErr = None\<rparr>"
  let ?w = "fixedWorld (Some ?q) (Inr ?resp) (Inr (backResp ''Hello'' True))"
  let ?msg = "''Error calling Ollama API: ollama API error (status 503): '' @
              [CHR 0xEF, CHR 0xBF, CHR 0xBD, CHR 0xEF, CHR 0xBF, CHR 0xBD]"
  have v: "validFront ?w post ?q" by (rule fixedWorld_valid) simp
  have s: "sendToOllama ?w (buildOllamaReq ?q) =
     (Inl (''ollama API error (status '' @ fmtD (StatusCode ?resp) @ ''): '' @ Body ?resp),
      [buildOllamaReq ?q])"
    by (rule sendToOllama_status [where jsonData = "''{}''"]) (simp_all add: fixedWorld_post)
  from endpoint_backend_error_wire [OF v s]
  have a: "responseBody (fst (endpoint ?w post)) =
             [errorPayload ?msg ''server_error'' ''internal_error'']"
    unfolding status_text_wire by (simp add: fmtD_examples replaced_bytes)
  have "CHR 0xFF \<notin> set ?msg"
    by simp
  then have b: "\<not> sublist [CHR 0xFF, CHR 0xFE] ?msg"
    using set_mono_sublist [of "[CHR 0xFF, CHR 0xFE]" ?msg] by auto
  from a b show ?thesis by blast
qed

section \<open>Two backend replies with the same response text\<close>

lemma sendToOllama_ok:
  "jsonMarshal wd oq = Inr jsonData \<Longrightarrow>
   httpPost wd (OLLAMA_API_BASE @ ''/api/generate'') CONTENT_TYPE_JSON jsonData =
     Inr \<lparr>StatusCode = 200, Body = b, ReadErr = None\<rparr> \<Longrightarrow>
   jsonUnmarshal wd b = Inr x \<Longrightarrow>
   sendToOllama wd oq = (Inr x, [oq])"
  by (simp add: sendToOllama_def StatusOK_def)

text \<open>
  Claim C10. Take two worlds that differ only in the backend's reply to the posted
  request, both replies having status 200 and parsing, with the one parser, to backend
  responses with the same \<open>response\<close> text, so that the two responses differ at most in
  \<open>model\<close> and \<open>done\<close>. Then a valid front request gets the same answer in both worlds,
  and it is the 200 chat response, whatever \<open>done\<close> says.
\<close>

theorem backend_model_done_ignored:
  assumes "sameExceptPost w1 w2" and "validFront w1 r q"
    and "jsonMarshal w1 (buildOllamaReq q) = Inr jsonData"
    and "httpPost w1 (OLLAMA_API_BASE @ ''/api/generate'') CONTENT_TYPE_JSON jsonData =
           Inr \<lparr>StatusCode = 200, Body = b1, ReadErr = None\<rparr>"
    and "httpPost w2 (OLLAMA_API_BASE @ ''/api/generate'') CONTENT_TYPE_JSON jsonData =
           Inr \<lparr>StatusCode = 200, Body = b2, ReadErr = None\<rparr>"
    and "jsonUnmarshal w1 b1 = Inr r1" and "jsonUnmarshal w1 b2 = Inr r2"
    and "Response r1 = Response r2"
  shows "endpoint w1 r = endpoint w2 r \<and>
         finalStatus (fst (endpoint w2 r)) = 200 \<and>
         wroteBody (fst (endpoint w2 r)) =
           [ChatPayload (buildOpenAIResp w2 (buildOllamaReq q) r2)]"
proof -
  from assms(1) have d: "jsonDecode w2 = jsonDecode w1" and m: "jsonMarshal w2 = jsonMarshal w1"
    and u: "jsonUnmarshal w2 = jsonUnmarshal w1"
    and rs: "randSource w1 = randSource w2" and tm: "timeNowUnix w1 = timeNowUnix w2"
    by (simp_all add: sameExceptPost_def)
  from assms(2) have v2: "validFront w2 r q"
    by (simp add: validFront_def d)
  have s1: "sendToOllama w1 (buildOllamaReq q) = (Inr r1, [buildOllamaReq q])"
    by (rule sendToOllama_ok [OF assms(3) assms(4) assms(6)])
  have s2: "sendToOllama w2 (buildOllamaReq q) = (Inr r2, [buildOllamaReq q])"
    by (rule sendToOllama_ok [where jsonData = jsonData and b = b2])
       (simp_all add: m u assms(3) assms(5) assms(7))
  have "buildOpenAIResp w1 (buildOllamaReq q) r1 = buildOpenAIResp w2 (buildOllamaReq q) r2"
    by (rule buildOpenAIResp_cong [OF rs tm assms(8)])
  then have "endpoint w1 r = endpoint w2 r"
    by (simp add: endpoint_valid [OF assms(2)] endpoint_valid [OF v2] s1 s2)
  with endpoint_success [OF v2 s2] show ?thesis
    by blast
qed

theorem backend_model_done_ignored_witness:
  "sameExceptPost
     (replyWorld ''{\"model\":\"llama2\",\"response\":\"Hello\",\"done\":true}'')
     (replyWorld ''{\"model\":\"mistral\",\"response\":\"Hello\",\"done\":false}'') \<and>
   exampleParse ''{\"model\":\"llama2\",\"response\":\"Hello\",\"done\":true}'' =
     Inr \<lparr>BackModel = ''llama2'', Response = ''Hello'', Done = True\<rparr> \<and>
   exampleParse ''{\"model\":\"mistral\",\"response\":\"Hello\",\"done\":false}'' =
     Inr \<lparr>BackModel = ''mistral'', Response = ''Hello'', Done = False\<rparr> \<and>
   endpoint (replyWorld ''{\"model\":\"llama2\",\"response\":\"Hello\",\"done\":true}'') post =
   endpoint (replyWorld ''{\"model\":\"mistral\",\"response\":\"Hello\",\"done\":false}'') post \<and>
   finalStatus (fst (endpoint
     (replyWorld ''{\"model\":\"mistral\",\"response\":\"Hello\",\"done\":false}'') post)) = 200 \<and>
   wroteBody (fst (endpoint
     (replyWorld ''{\"model\":\"mistral\",\"response\":\"Hello\",\"done\":false}'') post)) =
     [ChatPayload
        \<lparr>ID = ''chatcmpl-greatJobOn'', Object = ''chat.completion'', Created = 1700000000,
         RespModel = ''llama2'',
         Choices = [\<lparr>Index = 0, Message = \<lparr>Role = ''assistant'', Content = ''Hello''\<rparr>,
                     FinishReason = ''stop''\<rparr>],
         Usage = \<lparr>PromptTokens = 2, CompletionTokens = 1, TotalTokens = 3\<rparr>\<rparr>]"
proof -
  let ?b1 = "''{\"model\":\"llama2\",\"response\":\"Hello\",\"done\":true}''"
  let ?b2 = "''{\"model\":\"mistral\",\"response\":\"Hello\",\"done\":false}''"
  let ?r1 = "\<lparr>BackModel = ''llama2'', Response = ''Hello'', Done = True\<rparr>"
  let ?r2 = "\<lparr>BackModel = ''mistral'', Response = ''Hello'', Done = False\<rparr>"
  let ?q = "llama2Req [userMsg ''Hi'']"
  let ?url = "OLLAMA_API_BASE @ ''/api/generate''"
  have same: "sameExceptPost (replyWorld ?b1) (replyWorld ?b2)"
    by (simp add: sameExceptPost_def replyWorld_def fixedWorld_def)
  have v: "validFront (replyWorld ?b1) post ?q"
    by (simp add: validFront_def replyWorld_def fixedWorld_def post_def llama2Req_def
        MethodPost_def)
  have m: "jsonMarshal (replyWorld ?b1) (buildOllamaReq ?q) = Inr ''{}''"
    by (simp add: replyWorld_def fixedWorld_def)
  have p1: "httpPost (replyWorld ?b1) ?url CONTENT_TYPE_JSON ''{}'' =
              Inr \<lparr>StatusCode = 200, Body = ?b1, ReadErr = None\<rparr>"
    by (simp add: replyWorld_def fixedWorld_def)
  have p2: "httpPost (replyWorld ?b2) ?url CONTENT_TYPE_JSON ''{}'' =
              Inr \<lparr>StatusCode = 200, Body = ?b2, ReadErr = None\<rparr>"
    by (simp add: replyWorld_def fixedWorld_def)
  have e1: "exampleParse ?b1 = Inr ?r1"
    by (simp add: exampleParse_def backResp_def)
  have e2: "exampleParse ?b2 = Inr ?r2"
    by (simp add: exampleParse_def)
  have u1: "jsonUnmarshal (replyWorld ?b1) ?b1 = Inr ?r1"
    using e1 by (simp add: replyWorld_def)
  have u2: "jsonUnmarshal (replyWorld ?b1) ?b2 = Inr ?r2"
    using e2 by (simp add: replyWorld_def)
  have eq: "Response ?r1 = Response ?r2"
    by simp
  have p: "Prompt (buildOllamaReq ?q) = ''user: Hi\<newline>''"
    by (simp add: buildOllamaReq_fields convertMessagesToPrompt_def llama2Req_def userMsg_def)
  have md: "OllamaModel (buildOllamaReq ?q) = ''llama2''"
    by (simp add: buildOllamaReq_fields llama2Req_def)
  have id: "generateRandomString (replyWorld ?b2) 10 = ''greatJobOn''"
    by (simp add: generateRandomString_def Intn_def replyWorld_def fixedWorld_def letters_def
        upt_rec)
  have tm: "getCurrentUnixTimestamp (replyWorld ?b2) = 1700000000"
    by (simp add: getCurrentUnixTimestamp_def replyWorld_def fixedWorld_def)
  have b: "buildOpenAIResp (replyWorld ?b2) (buildOllamaReq ?q) ?r2 =
     \<lparr>ID = ''chatcmpl-greatJobOn'', Object = ''chat.completion'', Created = 1700000000,
      RespModel = ''llama2'',
      Choices = [\<lparr>Index = 0, Message = \<lparr>Role = ''assistant'', Content = ''Hello''\<rparr>,
                  FinishReason = ''stop''\<rparr>],
      Usage = \<lparr>PromptTokens = 2, CompletionTokens = 1, TotalTokens = 3\<rparr>\<rparr>"
    by (simp add: buildOpenAIResp_def p md id tm)
  from backend_model_done_ignored [OF same v m p1 p2 u1 u2 eq] same e1 e2 show ?thesis
    unfolding b by blast
qed

end
